theory Spec2Isabelle
  imports Complex_Main "HOL-Library.Word" "HOL-Library.Sublist"
begin

section \<open>JavaScript values\<close>

text \<open>
  A JavaScript string is a sequence of UTF-16 code units; \<open>.length\<close> counts them.
  \<open>js\<close> writes an ASCII literal as such a sequence.
\<close>

type_synonym jsstring = "16 word list"

definition js :: "string \<Rightarrow> jsstring" where
  "js s = map of_char s"

text \<open>
  The code units that \<open>String.prototype.trim\<close> strips and that \<open>\s\<close> matches in a
  regular expression: ECMAScript's WhiteSpace and LineTerminator (all in the basic plane).
\<close>

definition isWhiteSpace :: "16 word \<Rightarrow> bool" where
  "isWhiteSpace c =
     (c \<in> {0x9, 0xA, 0xB, 0xC, 0xD, 0x20, 0xA0, 0x1680, 0x2028, 0x2029, 0x202F, 0x205F,
            0x3000, 0xFEFF}
      \<or> (0x2000 \<le> c \<and> c \<le> 0x200A))"

definition trim :: "jsstring \<Rightarrow> jsstring" where
  "trim s = rev (dropWhile isWhiteSpace (rev (dropWhile isWhiteSpace s)))"

text \<open>\<open>xs.slice(-n)\<close>: the last \<open>n\<close> elements, all of them when there are fewer.\<close>

definition slice_last :: "nat \<Rightarrow> 'a list \<Rightarrow> 'a list" where
  "slice_last n xs = drop (length xs - n) xs"

text \<open>\<open>s.includes(p)\<close>: \<open>p\<close> occurs in \<open>s\<close> as a contiguous run.\<close>

fun str_includes :: "'a list \<Rightarrow> 'a list \<Rightarrow> bool" where
  "str_includes [] p = (p = [])"
| "str_includes (x # xs) p = (prefix p (x # xs) \<or> str_includes xs p)"

text \<open>
  What \<open>JSON.parse\<close> returns. An object keeps its members in the order of the text; a
  repeated key takes its last value. A property that is not there reads as
  \<open>undefined\<close>, here \<open>None\<close>. Of a number only its truthiness is ever read.
\<close>

datatype json =
    JNull
  | JBool bool
  | JNum rat
  | JStr jsstring
  | JArr "json list"
  | JObj "(jsstring \<times> json) list"

datatype js_exn = TypeError

text \<open>
  \<open>v.k\<close> for a parsed value \<open>v\<close> other than \<open>null\<close> and a key \<open>k\<close> that no
  prototype defines (every key read below is such a key). Reading a property of
  \<open>null\<close> throws; the callers test for \<open>JNull\<close> first.
\<close>

fun get :: "json \<Rightarrow> jsstring \<Rightarrow> json option" where
  "get (JObj kvs) k = map_of (rev kvs) k"
| "get _ k = None"

fun truthy :: "json option \<Rightarrow> bool" where
  "truthy None = False"
| "truthy (Some JNull) = False"
| "truthy (Some (JBool b)) = b"
| "truthy (Some (JNum n)) = (n \<noteq> 0)"
| "truthy (Some (JStr s)) = (s \<noteq> [])"
| "truthy (Some (JArr _)) = True"
| "truthy (Some (JObj _)) = True"

text \<open>\<open>typeof v === 'string'\<close>, and the string such a value is (\<open>str_of\<close> is applied
  only where the source has established that the value is a string).\<close>

fun isString :: "json option \<Rightarrow> bool" where
  "isString (Some (JStr s)) = True"
| "isString _ = False"

fun str_of :: "json option \<Rightarrow> jsstring" where
  "str_of (Some (JStr s)) = s"
| "str_of _ = []"

text \<open>\<open>typeof v === 'object'\<close>: true of \<open>null\<close>, arrays and objects.\<close>

fun isObject :: "json \<Rightarrow> bool" where
  "isObject JNull = True"
| "isObject (JArr _) = True"
| "isObject (JObj _) = True"
| "isObject _ = False"

text \<open>\<open>a || b\<close> on possibly undefined values.\<close>

definition or_else :: "json option \<Rightarrow> json option \<Rightarrow> json option" where
  "or_else a b = (if truthy a then a else b)"

text \<open>\<open>a || d\<close> where \<open>d\<close> is a literal.\<close>

fun or_default :: "json option \<Rightarrow> json \<Rightarrow> json" where
  "or_default None d = d"
| "or_default (Some v) d = (if truthy (Some v) then v else d)"

section \<open>netlify/functions/chatbot-proxy.js\<close>

text \<open>
  What \<open>parseInt\<close> returns: a whole number, \<open>NaN\<close> for a text that does not start
  with a number, or an infinity for a number too large for a double. \<open>num_ge n x\<close> is
  \<open>n >= x\<close> for a whole number \<open>n\<close>: false when \<open>x\<close> is \<open>NaN\<close>.
\<close>

datatype js_number = Finite int | NaN | PosInfinity | NegInfinity

fun num_ge :: "int \<Rightarrow> js_number \<Rightarrow> bool" where
  "num_ge n (Finite m) = (n \<ge> m)"
| "num_ge n NaN = False"
| "num_ge n PosInfinity = False"
| "num_ge n NegInfinity = True"

record config =
  RATE_LIMIT_PER_MINUTE :: js_number
  REQUEST_TIMEOUT :: js_number
  MAX_MESSAGE_LENGTH :: nat
  MAX_HISTORY_LENGTH :: nat

text \<open>
  The two limits are \<open>parseInt\<close> of the environment's settings (of \<open>'10'\<close> and
  \<open>'30000'\<close> when a setting is absent or empty); the two lengths are fixed.
\<close>

definition CONFIG :: "js_number \<Rightarrow> js_number \<Rightarrow> config" where
  "CONFIG perMinute timeout =
     \<lparr>RATE_LIMIT_PER_MINUTE = perMinute, REQUEST_TIMEOUT = timeout,
      MAX_MESSAGE_LENGTH = 500, MAX_HISTORY_LENGTH = 5\<rparr>"

record rate_entry =
  count :: int
  timestamp :: int

type_synonym rateLimitStore = "jsstring \<rightharpoonup> rate_entry"

text \<open>\<open>now\<close> is the reading of \<open>Date.now()\<close> inside the function.\<close>

definition cleanupRateLimitStore :: "int \<Rightarrow> rateLimitStore \<Rightarrow> rateLimitStore" where
  "cleanupRateLimitStore now store =
     (let oneMinuteAgo = now - 60000 in
      (\<lambda>key. case store key of
                None \<Rightarrow> None
              | Some data \<Rightarrow> if timestamp data < oneMinuteAgo then None else Some data))"

text \<open>
  \<open>checkRateLimit\<close> of the chat proxy reads the clock twice: \<open>t0\<close> inside
  \<open>cleanupRateLimitStore\<close>, then \<open>now\<close>. It returns the answer and the store it leaves.
\<close>

definition checkRateLimit_chat :: "config \<Rightarrow> int \<Rightarrow> int \<Rightarrow> rateLimitStore \<Rightarrow> jsstring
    \<Rightarrow> bool \<times> rateLimitStore" where
  "checkRateLimit_chat cfg t0 now store0 ip =
     (let store = cleanupRateLimitStore t0 store0;
          oneMinuteAgo = now - 60000
      in case store ip of
           None \<Rightarrow> (True, store(ip \<mapsto> \<lparr>count = 1, timestamp = now\<rparr>))
         | Some data \<Rightarrow>
             if timestamp data < oneMinuteAgo
             then (True, store(ip \<mapsto> \<lparr>count = 1, timestamp = now\<rparr>))
             else if num_ge (count data) (RATE_LIMIT_PER_MINUTE cfg)
             then (False, store)
             else (True, store(ip \<mapsto> \<lparr>count = count data + 1, timestamp = now\<rparr>)))"

record chat_data =
  message :: jsstring
  language :: jsstring
  sessionId :: jsstring
  history :: "json list"

datatype chat_validation = ChatInvalid string | ChatValid chat_data

text \<open>
  The loop over the truncated history: \<open>None\<close> when every item passes, the error text
  of the first item that does not, a \<open>TypeError\<close> when an item is \<open>null\<close>
  (\<open>item.role\<close> of \<open>null\<close>).
\<close>

fun validateHistory :: "json list \<Rightarrow> js_exn + string option" where
  \<open>validateHistory [] = Inr None\<close>
| \<open>validateHistory (item # rest) =
     (if item = JNull then Inl TypeError
      else if \<not> truthy (get item (js ''role'')) \<or> \<not> truthy (get item (js ''content'')) \<or>
              \<not> isString (get item (js ''role'')) \<or> \<not> isString (get item (js ''content''))
      then Inr (Some ''Invalid history format'')
      else if get item (js ''role'') \<notin> {Some (JStr (js ''user'')), Some (JStr (js ''assistant''))}
      then Inr (Some ''History role must be "user" or "assistant"'')
      else validateHistory rest)\<close>

definition validateInput :: "config \<Rightarrow> json \<Rightarrow> js_exn + chat_validation" where
  \<open>validateInput cfg body =
     (if \<not> truthy (Some body) \<or> \<not> isObject body
      then Inr (ChatInvalid ''Invalid request format'')
      else if \<not> truthy (get body (js ''message'')) \<or> \<not> isString (get body (js ''message''))
      then Inr (ChatInvalid ''Message is required and must be a string'')
      else if \<not> truthy (get body (js ''language'')) \<or>
              get body (js ''language'') \<notin> {Some (JStr (js ''ja'')), Some (JStr (js ''en''))}
      then Inr (ChatInvalid ''Language must be "ja" or "en"'')
      else if \<not> truthy (get body (js ''sessionId'')) \<or> \<not> isString (get body (js ''sessionId''))
      then Inr (ChatInvalid ''Session ID is required'')
      else if length (str_of (get body (js ''message''))) > MAX_MESSAGE_LENGTH cfg
      then Inr (ChatInvalid ''Message too long (max 500 characters)'')
      else if length (trim (str_of (get body (js ''message'')))) = 0
      then Inr (ChatInvalid ''Message cannot be empty'')
      else
        (let hist = (case get body (js ''history'') of
                       Some (JArr items) \<Rightarrow> slice_last (MAX_HISTORY_LENGTH cfg) items
                     | _ \<Rightarrow> [])
         in case validateHistory hist of
              Inl e \<Rightarrow> Inl e
            | Inr (Some err) \<Rightarrow> Inr (ChatInvalid err)
            | Inr None \<Rightarrow>
                Inr (ChatValid \<lparr>message = trim (str_of (get body (js ''message''))),
                                language = str_of (get body (js ''language'')),
                                sessionId = str_of (get body (js ''sessionId'')),
                                history = hist\<rparr>)))\<close>

text \<open>
  What the handler reads of a request. \<open>body\<close> is \<open>None\<close> when the platform passes
  \<open>null\<close>.
\<close>

record event =
  httpMethod :: jsstring
  headers :: "jsstring \<rightharpoonup> jsstring"
  body :: "jsstring option"

record 'b response =
  statusCode :: nat
  resp_body :: 'b

text \<open>
  The bodies the chat handler sends, by their \<open>error\<close> tag; the bilingual texts of a
  \<open>server_error\<close> are named by \<open>message_kind\<close>.
\<close>

datatype message_kind = DefaultMessage | TimeoutMessage | ConnectMessage | ConfigMessage

datatype chat_body =
    EmptyBody
  | MethodNotAllowed
  | RateLimitExceeded
  | InvalidJson
  | ValidationError string
  | Forwarded json
  | ServerError message_kind

text \<open>
  The outside of the chat handler: \<open>JSON.parse\<close> (\<open>None\<close> when it throws) and the
  outcome of \<open>callN8nWebhook\<close>, the request to the webhook: the parsed reply, or the
  message of the error it rejects with.
\<close>

record env =
  JSON_parse :: "jsstring \<Rightarrow> json option"
  callN8nWebhook :: "chat_data \<Rightarrow> jsstring + json"

text \<open>
  \<open>event.headers['x-forwarded-for']?.split(',')[0]?.trim() || event.headers['client-ip']
  || 'unknown'\<close>
\<close>

definition clientIp :: "event \<Rightarrow> jsstring" where
  "clientIp event =
     (let first = (case headers event (js ''x-forwarded-for'') of
                     None \<Rightarrow> []
                   | Some h \<Rightarrow> trim (takeWhile (\<lambda>c. c \<noteq> 0x2C) h))
      in if first \<noteq> [] then first
         else case headers event (js ''client-ip'') of
                None \<Rightarrow> js ''unknown''
              | Some h \<Rightarrow> if h \<noteq> [] then h else js ''unknown'')"

text \<open>The \<open>catch\<close> block of the handler, on the message of the error caught.\<close>

definition errorResponse :: "jsstring \<Rightarrow> chat_body response" where
  "errorResponse msg =
     (if str_includes msg (js ''timeout'')
      then \<lparr>statusCode = 504, resp_body = ServerError TimeoutMessage\<rparr>
      else if str_includes msg (js ''connect'')
      then \<lparr>statusCode = 503, resp_body = ServerError ConnectMessage\<rparr>
      else if str_includes msg (js ''not configured'')
      then \<lparr>statusCode = 500, resp_body = ServerError ConfigMessage\<rparr>
      else \<lparr>statusCode = 500, resp_body = ServerError DefaultMessage\<rparr>)"

text \<open>\<open>event.body || '{}'\<close>\<close>

definition bodyText :: "event \<Rightarrow> jsstring" where
  "bodyText event = (case body event of None \<Rightarrow> js ''{}'' | Some b \<Rightarrow> if b = [] then js ''{}'' else b)"

text \<open>
  The handler returns the response and the rate-limit store it leaves. A \<open>TypeError\<close>
  out of \<open>validateInput\<close> reaches the \<open>catch\<close> block with the engine's message
  (cannot read properties of null), which has none of the three words.
\<close>

definition handler_chat :: "config \<Rightarrow> env \<Rightarrow> int \<Rightarrow> int \<Rightarrow> rateLimitStore \<Rightarrow> event
    \<Rightarrow> chat_body response \<times> rateLimitStore" where
  "handler_chat cfg env t0 now store event =
     (if httpMethod event = js ''OPTIONS''
      then (\<lparr>statusCode = 200, resp_body = EmptyBody\<rparr>, store)
      else if httpMethod event \<noteq> js ''POST''
      then (\<lparr>statusCode = 405, resp_body = MethodNotAllowed\<rparr>, store)
      else
        (case checkRateLimit_chat cfg t0 now store (clientIp event) of
           (False, store') \<Rightarrow> (\<lparr>statusCode = 429, resp_body = RateLimitExceeded\<rparr>, store')
         | (True, store') \<Rightarrow>
             (case JSON_parse env (bodyText event) of
                None \<Rightarrow> (\<lparr>statusCode = 400, resp_body = InvalidJson\<rparr>, store')
              | Some parsed \<Rightarrow>
                  (case validateInput cfg parsed of
                     Inl TypeError \<Rightarrow>
                       (\<lparr>statusCode = 500, resp_body = ServerError DefaultMessage\<rparr>, store')
                   | Inr (ChatInvalid err) \<Rightarrow>
                       (\<lparr>statusCode = 400, resp_body = ValidationError err\<rparr>, store')
                   | Inr (ChatValid data) \<Rightarrow>
                       (case callN8nWebhook env data of
                          Inr reply \<Rightarrow> (\<lparr>statusCode = 200, resp_body = Forwarded reply\<rparr>, store')
                        | Inl msg \<Rightarrow> (errorResponse msg, store'))))))"

section \<open>netlify/functions/contact-form-proxy.js\<close>

definition RATE_LIMIT_WINDOW :: int where
  "RATE_LIMIT_WINDOW = 60 * 60 * 1000"

definition MAX_REQUESTS_PER_HOUR :: nat where
  "MAX_REQUESTS_PER_HOUR = 10"

text \<open>\<open>Math.ceil(ms / 1000)\<close> on a whole number of milliseconds.\<close>

definition ceil_seconds :: "int \<Rightarrow> int" where
  "ceil_seconds ms = \<lceil>(of_int ms :: rat) / 1000\<rceil>"

datatype rate_check = Allowed | Denied int

type_synonym requestLog = "jsstring \<rightharpoonup> int list"

definition checkRateLimit_contact :: "int \<Rightarrow> requestLog \<Rightarrow> jsstring \<Rightarrow> rate_check \<times> requestLog" where
  "checkRateLimit_contact now store ip =
     (let userRequests = (case store ip of None \<Rightarrow> [] | Some ts \<Rightarrow> ts);
          recentRequests = filter (\<lambda>timestamp. now - timestamp < RATE_LIMIT_WINDOW) userRequests
      in if length recentRequests \<ge> MAX_REQUESTS_PER_HOUR
         then (let oldestRequest = Min (set recentRequests)
               in (Denied (ceil_seconds (oldestRequest + RATE_LIMIT_WINDOW - now)), store))
         else (Allowed, store(ip \<mapsto> recentRequests @ [now])))"

text \<open>
  \<open>/^[^\s@]+@[^\s@]+\.[^\s@]+$/.test(s)\<close>: a non-empty run without white space and
  \<open>@\<close>, an \<open>@\<close>, and to the end of the string a run without white space and \<open>@\<close>
  that has a dot neither first nor last.
\<close>

definition emailChar :: "16 word \<Rightarrow> bool" where
  "emailChar c = (\<not> isWhiteSpace c \<and> c \<noteq> 0x40)"

definition emailRegex_test :: "jsstring \<Rightarrow> bool" where
  "emailRegex_test s =
     (takeWhile emailChar s \<noteq> [] \<and>
      (case dropWhile emailChar s of
         [] \<Rightarrow> False
       | c # r \<Rightarrow> c = 0x40 \<and> list_all emailChar r \<and> 0x2E \<in> set (butlast (tl r))))"

record contact_data =
  c_name :: jsstring
  c_email :: jsstring
  c_company :: jsstring
  c_phone :: jsstring
  c_service :: jsstring
  c_message :: jsstring
  c_consent :: bool
  c_language :: json
  c_timestamp :: jsstring
  c_source :: jsstring

datatype contact_validation = ContactInvalid | ContactValid contact_data

text \<open>A required field fails: falsy, not a string, or blank.\<close>

definition fieldInvalid :: "json option \<Rightarrow> bool" where
  "fieldInvalid v = (\<not> truthy v \<or> \<not> isString v \<or> trim (str_of v) = [])"

text \<open>
  \<open>v ? v.trim().substring(0, n) : ''\<close>: a truthy value that is not a string has no
  \<open>trim\<close>, and the call throws.
\<close>

definition sanitizeOptional :: "nat \<Rightarrow> json option \<Rightarrow> js_exn + jsstring" where
  "sanitizeOptional n v =
     (if truthy v
      then (if isString v then Inr (take n (trim (str_of v))) else Inl TypeError)
      else Inr [])"

text \<open>
  Turning a parsed value into a string or a number throws a \<open>TypeError\<close> for an
  object that has a \<open>toString\<close> member of its own (no parsed value is callable, and
  \<open>Object.prototype.valueOf\<close> returns the object), and for an array with such an
  element, \<open>join\<close> turning each element other than \<open>null\<close> into a string.
\<close>

fun coercionThrows :: "json \<Rightarrow> bool" where
  "coercionThrows (JObj kvs) = (js ''toString'' \<in> set (map fst kvs))"
| "coercionThrows (JArr items) = list_ex coercionThrows items"
| "coercionThrows _ = False"

text \<open>
  \<open>emailRegex.test(v)\<close> for a truthy \<open>v\<close> turns a \<open>v\<close> that is not a string into one.
\<close>

definition testThrows :: "json \<Rightarrow> bool" where
  "testThrows v = (truthy (Some v) \<and> \<not> isString (Some v) \<and> coercionThrows v)"

text \<open>
  \<open>v.length > 2000\<close> for a truthy \<open>v\<close> turns the \<open>length\<close> member of an object into a
  number; the length of a string or an array is a number, and other values have none.
\<close>

definition lengthThrows :: "json \<Rightarrow> bool" where
  "lengthThrows v =
     (case v of
        JObj kvs \<Rightarrow> (case get v (js ''length'') of None \<Rightarrow> False | Some l \<Rightarrow> coercionThrows l)
      | _ \<Rightarrow> False)"

text \<open>
  \<open>validateAndSanitize\<close>, with \<open>String.prototype.toLowerCase\<close> and the reading of
  \<open>new Date().toISOString()\<close> as parameters. The two checks after the loop over the
  required fields run whatever the loop found, and throw where the email or the length
  of the message cannot be coerced. Of the \<open>errors\<close> array the model keeps whether it
  is empty: when no required field fails the two checks read strings.
\<close>

definition validateAndSanitize :: "(jsstring \<Rightarrow> jsstring) \<Rightarrow> jsstring \<Rightarrow> json
    \<Rightarrow> js_exn + contact_validation" where
  "validateAndSanitize toLowerCase isoNow data =
     (if data = JNull then Inl TypeError
      else
        (let name = or_default (or_else (get data (js ''name'')) (get data (js ''firstname''))) (JStr []);
             email = or_default (get data (js ''email'')) (JStr []);
             company = or_default (get data (js ''company'')) (JStr []);
             phone = or_default (get data (js ''phone'')) (JStr []);
             service = or_default (or_else (get data (js ''service'')) (get data (js ''projectType'')))
                         (JStr []);
             msg = or_default (get data (js ''message'')) (JStr []);
             consent = get data (js ''consent'');
             lang = or_default (get data (js ''language'')) (JStr (js ''ja''))
         in if testThrows email \<or> lengthThrows msg
            then Inl TypeError
            else if fieldInvalid (Some name) \<or> fieldInvalid (Some email) \<or> fieldInvalid (Some msg)
            then Inr ContactInvalid
            else if truthy (Some email) \<and> \<not> emailRegex_test (str_of (Some email))
            then Inr ContactInvalid
            else if truthy (Some msg) \<and> length (str_of (Some msg)) > 2000
            then Inr ContactInvalid
            else
              (let requestedSource =
                     (if truthy (get data (js ''source'')) \<and>
                         get data (js ''source'') \<in> {Some (JStr (js ''website-contact-form'')),
                                                    Some (JStr (js ''pdf-download''))}
                      then str_of (get data (js ''source''))
                      else js ''website-contact-form'')
               in case (sanitizeOptional 200 (Some company), sanitizeOptional 50 (Some phone),
                        sanitizeOptional 100 (Some service)) of
                    (Inr company', Inr phone', Inr service') \<Rightarrow>
                      Inr (ContactValid
                        \<lparr>c_name = take 100 (trim (str_of (Some name))),
                         c_email = take 200 (toLowerCase (trim (str_of (Some email)))),
                         c_company = company',
                         c_phone = phone',
                         c_service = service',
                         c_message = take 2000 (trim (str_of (Some msg))),
                         c_consent = (consent = Some (JBool True) \<or> consent = Some (JStr (js ''true''))),
                         c_language = or_default (Some lang) (JStr (js ''ja'')),
                         c_timestamp = isoNow,
                         c_source = requestedSource\<rparr>)
                  | _ \<Rightarrow> Inl TypeError)))"

text \<open>
  The contact handler: whether the two settings are there, \<open>JSON.parse\<close>, and how the
  \<open>fetch\<close> of the webhook ends (aborted by the timer, failed otherwise, or a response
  with its status).
\<close>

record contact_config =
  N8N_WEBHOOK_URL :: bool
  API_KEY :: bool

datatype fetch_outcome = FetchAborted | FetchFailed | FetchResponse nat

record contact_env =
  contact_JSON_parse :: "jsstring \<Rightarrow> json option"
  toLowerCase :: "jsstring \<Rightarrow> jsstring"
  toISOString :: jsstring
  fetch_webhook :: "contact_data \<Rightarrow> fetch_outcome"

datatype contact_body =
    ContactEmptyBody
  | ContactMethodNotAllowed
  | TooManyRequests int
  | InvalidJSONFormat
  | ValidationFailed
  | ServerConfigurationError
  | FailedToProcessForm nat
  | FormSubmitted
  | RequestTimeout
  | InternalServerError

definition clientIP :: "event \<Rightarrow> jsstring" where
  "clientIP event =
     (case headers event (js ''x-forwarded-for'') of
        Some h \<Rightarrow> if h \<noteq> [] then h
                  else (case headers event (js ''client-ip'') of
                          None \<Rightarrow> js ''unknown''
                        | Some h' \<Rightarrow> if h' \<noteq> [] then h' else js ''unknown'')
      | None \<Rightarrow> (case headers event (js ''client-ip'') of
                   None \<Rightarrow> js ''unknown''
                 | Some h' \<Rightarrow> if h' \<noteq> [] then h' else js ''unknown''))"

text \<open>\<open>JSON.parse(event.body)\<close>: a \<open>null\<close> body is read as the text \<open>null\<close>.\<close>

definition parseBody :: "contact_env \<Rightarrow> event \<Rightarrow> json option" where
  "parseBody env event =
     (case body event of None \<Rightarrow> Some JNull | Some b \<Rightarrow> contact_JSON_parse env b)"

definition handler_contact :: "contact_config \<Rightarrow> contact_env \<Rightarrow> int \<Rightarrow> requestLog \<Rightarrow> event
    \<Rightarrow> contact_body response \<times> requestLog" where
  "handler_contact cfg env now store event =
     (if httpMethod event = js ''OPTIONS''
      then (\<lparr>statusCode = 200, resp_body = ContactEmptyBody\<rparr>, store)
      else if httpMethod event \<noteq> js ''POST''
      then (\<lparr>statusCode = 405, resp_body = ContactMethodNotAllowed\<rparr>, store)
      else
        (case checkRateLimit_contact now store (clientIP event) of
           (Denied retryAfter, store') \<Rightarrow>
             (\<lparr>statusCode = 429, resp_body = TooManyRequests retryAfter\<rparr>, store')
         | (Allowed, store') \<Rightarrow>
             (case parseBody env event of
                None \<Rightarrow> (\<lparr>statusCode = 400, resp_body = InvalidJSONFormat\<rparr>, store')
              | Some requestData \<Rightarrow>
                  (case validateAndSanitize (toLowerCase env) (toISOString env) requestData of
                     Inl TypeError \<Rightarrow>
                       (\<lparr>statusCode = 500, resp_body = InternalServerError\<rparr>, store')
                   | Inr ContactInvalid \<Rightarrow>
                       (\<lparr>statusCode = 400, resp_body = ValidationFailed\<rparr>, store')
                   | Inr (ContactValid sanitizedData) \<Rightarrow>
                       if \<not> N8N_WEBHOOK_URL cfg \<or> \<not> API_KEY cfg
                       then (\<lparr>statusCode = 500, resp_body = ServerConfigurationError\<rparr>, store')
                       else
                         (case fetch_webhook env sanitizedData of
                            FetchAborted \<Rightarrow>
                              (\<lparr>statusCode = 504, resp_body = RequestTimeout\<rparr>, store')
                          | FetchFailed \<Rightarrow>
                              (\<lparr>statusCode = 500, resp_body = InternalServerError\<rparr>, store')
                          | FetchResponse status \<Rightarrow>
                              if \<not> (200 \<le> status \<and> status \<le> 299)
                              then (\<lparr>statusCode = status,
                                     resp_body = FailedToProcessForm status\<rparr>, store')
                              else (\<lparr>statusCode = 200, resp_body = FormSubmitted\<rparr>, store'))))))"

section \<open>The chatbot widget\<close>

subsection \<open>Rate limiting in the browser\<close>

record rate_limit =
  max_count :: nat
  window :: int

datatype check_name = PER_MINUTE | PER_10_MINUTES | PER_DAY

fun RATE_LIMITS :: "check_name \<Rightarrow> rate_limit" where
  "RATE_LIMITS PER_MINUTE = \<lparr>max_count = 8, window = 60 * 1000\<rparr>"
| "RATE_LIMITS PER_10_MINUTES = \<lparr>max_count = 20, window = 10 * 60 * 1000\<rparr>"
| "RATE_LIMITS PER_DAY = \<lparr>max_count = 50, window = 24 * 60 * 60 * 1000\<rparr>"

datatype lang = Ja | En

definition getCurrentLanguage :: lang where
  "getCurrentLanguage = Ja"

text \<open>
  \<open>check.messages[lang]\<close>: the text of a tier in a language, named by its place in the
  table.
\<close>

datatype reason = Messages check_name lang

datatype client_check = ClientAllowed | ClientDenied reason int

text \<open>
  What \<open>localStorage\<close> holds under the rate-limit key: nothing, a text that
  \<open>JSON.parse\<close> refuses, or the array of timestamps a previous call wrote.
\<close>

datatype stored_times = Absent | Unparseable | Times "int list"

text \<open>
  \<open>JSON.parse(localStorage.getItem(KEY) || '[]')\<close>, with \<open>[]\<close> when it throws.
\<close>

definition loadTimes :: "stored_times \<Rightarrow> int list" where
  "loadTimes storage = (case storage of Times ts \<Rightarrow> ts | _ \<Rightarrow> [])"

definition checks :: "check_name list" where
  "checks = [PER_MINUTE, PER_10_MINUTES, PER_DAY]"

text \<open>The loop over \<open>checks\<close>: the denial of the first tier that is full, if any.\<close>

fun runChecks :: "int \<Rightarrow> int list \<Rightarrow> check_name list \<Rightarrow> client_check option" where
  "runChecks now messageTimes [] = None"
| "runChecks now messageTimes (check # rest) =
     (let recentMessages = filter (\<lambda>time. now - time < window (RATE_LIMITS check)) messageTimes
      in if length recentMessages \<ge> max_count (RATE_LIMITS check)
         then (let oldestMessage = Min (set recentMessages);
                   retryAfter = ceil_seconds (oldestMessage + window (RATE_LIMITS check) - now)
               in Some (ClientDenied (Messages check getCurrentLanguage) retryAfter))
         else runChecks now messageTimes rest)"

text \<open>
  \<open>checkRateLimit\<close> of the widget at clock reading \<open>now\<close>; \<open>writable\<close> says whether
  \<open>localStorage.setItem\<close> succeeds (its exception is caught and the call still allows).
  It returns the answer and what the storage holds afterwards.
\<close>

definition checkRateLimit_client :: "int \<Rightarrow> bool \<Rightarrow> stored_times \<Rightarrow> client_check \<times> stored_times" where
  "checkRateLimit_client now writable storage =
     (let messageTimes = filter (\<lambda>time. now - time < window (RATE_LIMITS PER_DAY))
                           (loadTimes storage)
      in case runChecks now messageTimes checks of
           Some denial \<Rightarrow> (denial, storage)
         | None \<Rightarrow> (ClientAllowed, if writable then Times (messageTimes @ [now]) else storage))"

subsection \<open>Conversation history\<close>

record turn =
  turn_text :: jsstring
  isUser :: bool
  turn_timestamp :: int

record wire_turn =
  role :: jsstring
  content :: jsstring

record widget =
  messageHistory :: "turn list"
  chatbot_history :: "turn list option"

text \<open>
  \<open>storeConversation\<close> writes the last 50 turns to \<open>sessionStorage\<close>; when
  \<open>setItem\<close> throws (\<open>writable\<close> false) the exception is caught and nothing changes.
\<close>

definition storeConversation :: "bool \<Rightarrow> widget \<Rightarrow> widget" where
  "storeConversation writable w =
     (let limitedHistory = slice_last 50 (messageHistory w)
      in if writable then w\<lparr>chatbot_history := Some limitedHistory\<rparr> else w)"

datatype message_type = Normal | Warning

text \<open>\<open>addMessage\<close>, without what it draws; \<open>date\<close> is the reading of \<open>new Date()\<close>.\<close>

definition addMessage :: "bool \<Rightarrow> int \<Rightarrow> jsstring \<Rightarrow> bool \<Rightarrow> message_type \<Rightarrow> widget \<Rightarrow> widget" where
  "addMessage writable date txt is_user type w =
     (if type = Normal
      then storeConversation writable
             (w\<lparr>messageHistory :=
                  messageHistory w @ [\<lparr>turn_text = txt, isUser = is_user, turn_timestamp = date\<rparr>]\<rparr>)
      else w)"

definition MAX_HISTORY_LENGTH_client :: nat where
  "MAX_HISTORY_LENGTH_client = 5"

definition getHistoryForAPI :: "widget \<Rightarrow> wire_turn list" where
  "getHistoryForAPI w =
     map (\<lambda>msg. \<lparr>role = (if isUser msg then js ''user'' else js ''assistant''),
                  content = turn_text msg\<rparr>)
       (slice_last MAX_HISTORY_LENGTH_client (messageHistory w))"

subsection \<open>Calling the proxy\<close>

record js_error =
  err_name :: jsstring
  err_message :: jsstring
  isTypeError :: bool

text \<open>\<open>new Error(msg)\<close>\<close>

definition Error :: "jsstring \<Rightarrow> js_error" where
  "Error msg = \<lparr>err_name = js ''Error'', err_message = msg, isTypeError = False\<rparr>"

text \<open>The \<open>TypeError\<close> of reading \<open>data.response\<close> when \<open>data\<close> is \<open>null\<close>.\<close>

definition nullReadError :: js_error where
  "nullReadError =
     \<lparr>err_name = js ''TypeError'', err_message = js ''Cannot read properties of null'',
      isTypeError = True\<rparr>"

text \<open>
  How one \<open>fetch\<close> ends: it rejects with an error (the abort of the 30 s timer has
  the name \<open>AbortError\<close>), or it gives a response with a status and what
  \<open>response.json()\<close> yields, the parsed body or the error it throws.
\<close>

datatype fetch_result = Rejected js_error | Response nat "js_error + json"

definition RETRY_ATTEMPTS :: nat where
  "RETRY_ATTEMPTS = 2"

text \<open>The \<open>try\<close> block of \<open>callAI\<close>: the reply text, or the error thrown in it.\<close>

definition tryBlock :: "fetch_result \<Rightarrow> js_error + jsstring" where
  "tryBlock r =
     (case r of
        Rejected e \<Rightarrow> Inl e
      | Response status parsed \<Rightarrow>
          if \<not> (200 \<le> status \<and> status \<le> 299)
          then (if status = 429 then Inl (Error (js ''RATE_LIMIT''))
                else if status = 504 then Inl (Error (js ''TIMEOUT''))
                else if status \<ge> 500 then Inl (Error (js ''SERVER_ERROR''))
                else Inl (Error (js ''API_ERROR'')))
          else (case parsed of
                  Inl e \<Rightarrow> Inl e
                | Inr data \<Rightarrow>
                    if data = JNull then Inl nullReadError
                    else if \<not> truthy (get data (js ''response'')) \<or>
                            \<not> isString (get data (js ''response''))
                    then Inl (Error (js ''INVALID_RESPONSE''))
                    else Inr (str_of (get data (js ''response'')))))"

text \<open>
  What \<open>callAI\<close> does besides returning: each request it sends and each wait before a
  retry, in order.
\<close>

datatype effect = Fetch | Sleep nat

text \<open>
  \<open>callAI(message, retryCount)\<close>; \<open>net k\<close> is how the request of the call with
  \<open>retryCount = k\<close> ends. It returns what the promise settles to (\<open>Inl\<close> the error
  thrown) and the effects.
\<close>

function callAI :: "(nat \<Rightarrow> fetch_result) \<Rightarrow> nat \<Rightarrow> (js_error + jsstring) \<times> effect list" where
  "callAI net retryCount =
     (case tryBlock (net retryCount) of
        Inr reply \<Rightarrow> (Inr reply, [Fetch])
      | Inl error \<Rightarrow>
          if err_name error = js ''AbortError''
          then (Inl (Error (js ''TIMEOUT'')), [Fetch])
          else if isTypeError error \<and> str_includes (err_message error) (js ''fetch'')
          then (Inl (Error (js ''NETWORK_ERROR'')), [Fetch])
          else if retryCount < RETRY_ATTEMPTS \<and>
                  (err_message error = js ''SERVER_ERROR'' \<or> err_message error = js ''API_ERROR'')
          then (case callAI net (retryCount + 1) of
                  (result, effects) \<Rightarrow>
                    (result, Fetch # Sleep (1000 * (retryCount + 1)) # effects))
          else (Inl error, [Fetch]))"
  by pat_completeness auto
termination
  by (relation "measure (\<lambda>(net, retryCount). RETRY_ATTEMPTS - retryCount)") auto

section \<open>Definitions for the statements\<close>

text \<open>
  The fixed-window limiter in the words of the specification, on the entry of one
  identity: the window starts when the entry is reset and is not moved by later
  requests.
\<close>

definition fixedWindow_spec :: "int \<Rightarrow> int \<Rightarrow> rate_entry option \<Rightarrow> bool \<times> rate_entry option" where
  "fixedWindow_spec maxCount now entry =
     (case entry of
        None \<Rightarrow> (True, Some \<lparr>count = 1, timestamp = now\<rparr>)
      | Some d \<Rightarrow>
          if now - timestamp d \<ge> 60000 then (True, Some \<lparr>count = 1, timestamp = now\<rparr>)
          else if count d < maxCount then (True, Some (d\<lparr>count := count d + 1\<rparr>))
          else (False, Some d))"

text \<open>
  Requests of one identity at the given clock readings, one after the other: the
  answers and the store left.
\<close>

fun serve :: "config \<Rightarrow> jsstring \<Rightarrow> int list \<Rightarrow> rateLimitStore \<Rightarrow> bool list \<times> rateLimitStore" where
  "serve cfg ip [] store = ([], store)"
| "serve cfg ip (t # ts) store =
     (case checkRateLimit_chat cfg t t store ip of
        (ok, store') \<Rightarrow> (case serve cfg ip ts store' of (oks, store'') \<Rightarrow> (ok # oks, store'')))"

text \<open>The errors with which \<open>validateInput\<close> rejects the \<open>message\<close> field.\<close>

definition messageErrors :: "string set" where
  "messageErrors = {''Message is required and must be a string'',
                    ''Message too long (max 500 characters)'',
                    ''Message cannot be empty''}"

text \<open>
  A history entry of the wire shape: its role is \<open>user\<close> or \<open>assistant\<close> and its
  content is a string.
\<close>

definition wireEntry :: "json \<Rightarrow> bool" where
  "wireEntry item =
     (get item (js ''role'') \<in> {Some (JStr (js ''user'')), Some (JStr (js ''assistant''))} \<and>
      isString (get item (js ''content'')))"

text \<open>
  The timestamps that the widget's check examines: those stored, without the ones of
  24 hours ago or before. A tier would deny on its own when its window holds as many
  of them as its maximum.
\<close>

definition prunedTimes :: "int \<Rightarrow> stored_times \<Rightarrow> int list" where
  "prunedTimes now storage =
     filter (\<lambda>time. now - time < window (RATE_LIMITS PER_DAY)) (loadTimes storage)"

definition tierEntries :: "int \<Rightarrow> check_name \<Rightarrow> int list \<Rightarrow> int list" where
  "tierEntries now check stamps = filter (\<lambda>time. now - time < window (RATE_LIMITS check)) stamps"

definition tierDenies :: "int \<Rightarrow> check_name \<Rightarrow> int list \<Rightarrow> bool" where
  "tierDenies now check stamps =
     (length (tierEntries now check stamps) \<ge> max_count (RATE_LIMITS check))"

text \<open>
  Normal messages added one after the other, each given by the reading of the clock,
  its text and whether the user wrote it; \<open>newTurn\<close> is the turn that \<open>addMessage\<close>
  pushes.
\<close>

definition newTurn :: "int \<times> jsstring \<times> bool \<Rightarrow> turn" where
  "newTurn m = (case m of (date, txt, is_user) \<Rightarrow>
                  \<lparr>turn_text = txt, isUser = is_user, turn_timestamp = date\<rparr>)"

fun addMessages :: "bool \<Rightarrow> (int \<times> jsstring \<times> bool) list \<Rightarrow> widget \<Rightarrow> widget" where
  "addMessages writable [] w = w"
| "addMessages writable ((date, txt, is_user) # rest) w =
     addMessages writable rest (addMessage writable date txt is_user Normal w)"

text \<open>A turn as it goes on the wire.\<close>

definition toWire :: "turn \<Rightarrow> wire_turn" where
  "toWire msg = \<lparr>role = (if isUser msg then js ''user'' else js ''assistant''),
                 content = turn_text msg\<rparr>"

text \<open>\<open>String.prototype.toLowerCase\<close> on a string of ASCII code units.\<close>

definition toLowerCase_ascii :: "jsstring \<Rightarrow> jsstring" where
  "toLowerCase_ascii s = map (\<lambda>c. if 0x41 \<le> c \<and> c \<le> 0x5A then c + 0x20 else c) s"

section \<open>Facts about the JavaScript operations\<close>

text \<open>\<open>includes\<close> is the test for a contiguous run.\<close>

lemma str_includes_sublist: "str_includes s p \<longleftrightarrow> sublist p s"
  by (induction s) (simp_all add: sublist_Cons_right)

text \<open>\<open>Math.ceil\<close> of a quotient of whole numbers, in integer arithmetic.\<close>

lemma ceil_seconds_div: "ceil_seconds ms = - ((- ms) div 1000)"
proof -
  have "\<lceil>(of_int ms :: rat) / of_int 1000\<rceil> = - ((- ms) div 1000)"
    by (rule ceiling_divide_eq_div)
  then show ?thesis
    by (simp add: ceil_seconds_def)
qed

text \<open>\<open>trim\<close> gives the empty string exactly on white space, and never a longer string.\<close>

lemma trim_Nil_iff: "trim s = [] \<longleftrightarrow> list_all isWhiteSpace s"
proof
  assume "trim s = []"
  then have rest: "\<forall>x \<in> set (dropWhile isWhiteSpace s). isWhiteSpace x"
    by (simp add: trim_def)
  have "set s = set (takeWhile isWhiteSpace s) \<union> set (dropWhile isWhiteSpace s)"
    by (metis set_append takeWhile_dropWhile_id)
  with rest show "list_all isWhiteSpace s"
    by (auto simp: list_all_iff dest: set_takeWhileD)
next
  assume "list_all isWhiteSpace s"
  then show "trim s = []"
    by (auto simp: trim_def list_all_iff dest: set_dropWhileD)
qed

lemma length_trim_le: "length (trim s) \<le> length s"
proof -
  have "length (trim s) \<le> length (dropWhile isWhiteSpace s)"
    unfolding trim_def length_rev
    using length_dropWhile_le [of isWhiteSpace "rev (dropWhile isWhiteSpace s)"] by simp
  also have "\<dots> \<le> length s"
    by (rule length_dropWhile_le)
  finally show ?thesis .
qed

text \<open>Leading white space before a character that is none is all that \<open>trim\<close> removes.\<close>

lemma trim_padded:
  assumes "\<not> isWhiteSpace c"
  shows "trim (replicate n 0x20 @ [c]) = [c]"
proof -
  have "dropWhile isWhiteSpace (replicate n 0x20 @ [c]) = dropWhile isWhiteSpace [c]"
    by (rule dropWhile_append2) (simp add: isWhiteSpace_def)
  then show ?thesis
    using assms by (simp add: trim_def)
qed

section \<open>The chat proxy's rate limiter\<close>

text \<open>What a POST does, given the limiter's answer.\<close>

lemma handler_chat_store:
  assumes "httpMethod event = js ''POST''"
  shows "snd (handler_chat cfg env t0 now store event) =
         snd (checkRateLimit_chat cfg t0 now store (clientIp event))"
  using assms
  by (auto simp: handler_chat_def js_def
      split: prod.splits option.splits sum.splits chat_validation.splits js_exn.splits bool.splits)

lemma handler_chat_post:
  assumes "httpMethod event = js ''POST''"
  shows "fst (handler_chat cfg env t0 now store event) =
     (if \<not> fst (checkRateLimit_chat cfg t0 now store (clientIp event))
      then \<lparr>statusCode = 429, resp_body = RateLimitExceeded\<rparr>
      else case JSON_parse env (bodyText event) of
             None \<Rightarrow> \<lparr>statusCode = 400, resp_body = InvalidJson\<rparr>
           | Some parsed \<Rightarrow>
               (case validateInput cfg parsed of
                  Inl e \<Rightarrow> \<lparr>statusCode = 500, resp_body = ServerError DefaultMessage\<rparr>
                | Inr (ChatInvalid err) \<Rightarrow> \<lparr>statusCode = 400, resp_body = ValidationError err\<rparr>
                | Inr (ChatValid data) \<Rightarrow>
                    (case callN8nWebhook env data of
                       Inr reply \<Rightarrow> \<lparr>statusCode = 200, resp_body = Forwarded reply\<rparr>
                     | Inl msg \<Rightarrow> errorResponse msg)))"
  using assms
  by (auto simp: handler_chat_def js_def
      split: prod.splits option.splits sum.splits chat_validation.splits js_exn.splits bool.splits)

lemma handler_contact_post:
  assumes "httpMethod event = js ''POST''"
  shows "fst (handler_contact cfg env now store event) =
     (case fst (checkRateLimit_contact now store (clientIP event)) of
        Denied retryAfter \<Rightarrow> \<lparr>statusCode = 429, resp_body = TooManyRequests retryAfter\<rparr>
      | Allowed \<Rightarrow>
         (case parseBody env event of
            None \<Rightarrow> \<lparr>statusCode = 400, resp_body = InvalidJSONFormat\<rparr>
          | Some requestData \<Rightarrow>
             (case validateAndSanitize (toLowerCase env) (toISOString env) requestData of
                Inl e \<Rightarrow> \<lparr>statusCode = 500, resp_body = InternalServerError\<rparr>
              | Inr ContactInvalid \<Rightarrow> \<lparr>statusCode = 400, resp_body = ValidationFailed\<rparr>
              | Inr (ContactValid sanitizedData) \<Rightarrow>
                  if \<not> N8N_WEBHOOK_URL cfg \<or> \<not> API_KEY cfg
                  then \<lparr>statusCode = 500, resp_body = ServerConfigurationError\<rparr>
                  else (case fetch_webhook env sanitizedData of
                          FetchAborted \<Rightarrow> \<lparr>statusCode = 504, resp_body = RequestTimeout\<rparr>
                        | FetchFailed \<Rightarrow> \<lparr>statusCode = 500, resp_body = InternalServerError\<rparr>
                        | FetchResponse status \<Rightarrow>
                            if \<not> (200 \<le> status \<and> status \<le> 299)
                            then \<lparr>statusCode = status, resp_body = FailedToProcessForm status\<rparr>
                            else \<lparr>statusCode = 200, resp_body = FormSubmitted\<rparr>))))"
  using assms
  by (auto simp: handler_contact_def js_def
      split: prod.splits option.splits sum.splits contact_validation.splits js_exn.splits
        rate_check.splits fetch_outcome.splits)

text \<open>
  C3, as stated, fails. The limiter does not keep the start of a window: every admitted
  request moves the stored time to \<open>now\<close>. With one request at 0 on record, a request at
  30 s leaves the time 30000 where the fixed window of the specification keeps 0; and ten
  requests 10 s apart are all admitted, after which the request at 100 s, more than a
  minute after the first, is denied.
\<close>

theorem chat_limiter_not_fixed_window:
  "(let r = checkRateLimit_chat (CONFIG (Finite 10) (Finite 30000)) 30000 30000
              [js ''1.2.3.4'' \<mapsto> \<lparr>count = 1, timestamp = 0\<rparr>] (js ''1.2.3.4'')
    in (fst r, snd r (js ''1.2.3.4'')))
     \<noteq> fixedWindow_spec 10 30000 (Some \<lparr>count = 1, timestamp = 0\<rparr>)
   \<and> fst (serve (CONFIG (Finite 10) (Finite 30000)) (js ''1.2.3.4'')
          [0, 10000, 20000, 30000, 40000, 50000, 60000, 70000, 80000, 90000, 100000] Map.empty)
       = [True, True, True, True, True, True, True, True, True, True, False]"
  by (simp add: checkRateLimit_chat_def cleanupRateLimitStore_def Let_def fixedWindow_spec_def
      CONFIG_def js_def)

text \<open>
  C3, amended. The stored time is that of the identity's last admitted request. With the
  two clock readings in order, a request is admitted with the entry reset to count 1 at
  \<open>now\<close> when there is no entry or more than one minute has passed since the stored
  time; otherwise it is denied and the entry stays when \<open>count >= max\<close>, the test of
  the code on the limit that \<open>parseInt\<close> gave; otherwise it is admitted with the count
  incremented and the time set to \<open>now\<close>. For a limit that is a number the test fails
  exactly when the count is below the limit; for a setting that is not a number it
  always fails and no request is denied. So once more than a minute has passed since
  the last admitted request, the counter resets and the next request is admitted.
\<close>

theorem chat_limiter_algorithm:
  assumes "t0 \<le> now"
  shows "(fst (checkRateLimit_chat cfg t0 now store ip),
          snd (checkRateLimit_chat cfg t0 now store ip) ip) =
     (case store ip of
        None \<Rightarrow> (True, Some \<lparr>count = 1, timestamp = now\<rparr>)
      | Some d \<Rightarrow>
          if now - timestamp d > 60000 then (True, Some \<lparr>count = 1, timestamp = now\<rparr>)
          else if num_ge (count d) (RATE_LIMIT_PER_MINUTE cfg) then (False, Some d)
          else (True, Some \<lparr>count = count d + 1, timestamp = now\<rparr>))
   \<and> (\<forall>d. store ip = Some d \<and> now - timestamp d > 60000 \<longrightarrow>
         fst (checkRateLimit_chat cfg t0 now store ip) \<and>
         snd (checkRateLimit_chat cfg t0 now store ip) ip = Some \<lparr>count = 1, timestamp = now\<rparr>)
   \<and> (\<forall>n m. RATE_LIMIT_PER_MINUTE cfg = Finite m \<longrightarrow>
         (num_ge n (RATE_LIMIT_PER_MINUTE cfg) \<longleftrightarrow> \<not> n < m))
   \<and> (RATE_LIMIT_PER_MINUTE cfg = NaN \<longrightarrow> fst (checkRateLimit_chat cfg t0 now store ip))"
proof -
  have entry: "(fst (checkRateLimit_chat cfg t0 now store ip),
          snd (checkRateLimit_chat cfg t0 now store ip) ip) =
     (case store ip of
        None \<Rightarrow> (True, Some \<lparr>count = 1, timestamp = now\<rparr>)
      | Some d \<Rightarrow>
          if now - timestamp d > 60000 then (True, Some \<lparr>count = 1, timestamp = now\<rparr>)
          else if num_ge (count d) (RATE_LIMIT_PER_MINUTE cfg) then (False, Some d)
          else (True, Some \<lparr>count = count d + 1, timestamp = now\<rparr>))"
    using assms
    by (auto simp: checkRateLimit_chat_def cleanupRateLimitStore_def Let_def split: option.splits)
  have reset: "\<forall>d. store ip = Some d \<and> now - timestamp d > 60000 \<longrightarrow>
         fst (checkRateLimit_chat cfg t0 now store ip) \<and>
         snd (checkRateLimit_chat cfg t0 now store ip) ip = Some \<lparr>count = 1, timestamp = now\<rparr>"
    using entry by auto
  have numeric: "\<forall>n m. RATE_LIMIT_PER_MINUTE cfg = Finite m \<longrightarrow>
         (num_ge n (RATE_LIMIT_PER_MINUTE cfg) \<longleftrightarrow> \<not> n < m)"
    by auto
  have nan: "RATE_LIMIT_PER_MINUTE cfg = NaN \<longrightarrow> fst (checkRateLimit_chat cfg t0 now store ip)"
    by (auto simp: checkRateLimit_chat_def Let_def split: option.splits)
  from entry reset numeric nan show ?thesis
    by blast
qed

theorem chat_limiter_algorithm_witness:
  "(fst (checkRateLimit_chat (CONFIG (Finite 10) (Finite 30000)) 70001 70001
           [js ''1.2.3.4'' \<mapsto> \<lparr>count = 10, timestamp = 10000\<rparr>] (js ''1.2.3.4'')),
    snd (checkRateLimit_chat (CONFIG (Finite 10) (Finite 30000)) 70001 70001
           [js ''1.2.3.4'' \<mapsto> \<lparr>count = 10, timestamp = 10000\<rparr>] (js ''1.2.3.4''))
      (js ''1.2.3.4''))
     = (True, Some \<lparr>count = 1, timestamp = 70001\<rparr>)
   \<and> (fst (checkRateLimit_chat (CONFIG (Finite 10) (Finite 30000)) 70000 70000
           [js ''1.2.3.4'' \<mapsto> \<lparr>count = 10, timestamp = 10000\<rparr>] (js ''1.2.3.4'')),
      snd (checkRateLimit_chat (CONFIG (Finite 10) (Finite 30000)) 70000 70000
           [js ''1.2.3.4'' \<mapsto> \<lparr>count = 10, timestamp = 10000\<rparr>] (js ''1.2.3.4''))
        (js ''1.2.3.4''))
     = (False, Some \<lparr>count = 10, timestamp = 10000\<rparr>)
   \<and> (fst (checkRateLimit_chat (CONFIG (Finite 10) (Finite 30000)) 70000 70000
           [js ''1.2.3.4'' \<mapsto> \<lparr>count = 9, timestamp = 10000\<rparr>] (js ''1.2.3.4'')),
      snd (checkRateLimit_chat (CONFIG (Finite 10) (Finite 30000)) 70000 70000
           [js ''1.2.3.4'' \<mapsto> \<lparr>count = 9, timestamp = 10000\<rparr>] (js ''1.2.3.4''))
        (js ''1.2.3.4''))
     = (True, Some \<lparr>count = 10, timestamp = 70000\<rparr>)
   \<and> (fst (checkRateLimit_chat (CONFIG NaN (Finite 30000)) 70000 70000
           [js ''1.2.3.4'' \<mapsto> \<lparr>count = 10, timestamp = 10000\<rparr>] (js ''1.2.3.4'')),
      snd (checkRateLimit_chat (CONFIG NaN (Finite 30000)) 70000 70000
           [js ''1.2.3.4'' \<mapsto> \<lparr>count = 10, timestamp = 10000\<rparr>] (js ''1.2.3.4''))
        (js ''1.2.3.4''))
     = (True, Some \<lparr>count = 11, timestamp = 70000\<rparr>)"
  using chat_limiter_algorithm [of 70001 70001 "CONFIG (Finite 10) (Finite 30000)"
          "[js ''1.2.3.4'' \<mapsto> \<lparr>count = 10, timestamp = 10000\<rparr>]" "js ''1.2.3.4''"]
        chat_limiter_algorithm [of 70000 70000 "CONFIG (Finite 10) (Finite 30000)"
          "[js ''1.2.3.4'' \<mapsto> \<lparr>count = 10, timestamp = 10000\<rparr>]" "js ''1.2.3.4''"]
        chat_limiter_algorithm [of 70000 70000 "CONFIG (Finite 10) (Finite 30000)"
          "[js ''1.2.3.4'' \<mapsto> \<lparr>count = 9, timestamp = 10000\<rparr>]" "js ''1.2.3.4''"]
        chat_limiter_algorithm [of 70000 70000 "CONFIG NaN (Finite 30000)"
          "[js ''1.2.3.4'' \<mapsto> \<lparr>count = 10, timestamp = 10000\<rparr>]" "js ''1.2.3.4''"]
  by (simp add: CONFIG_def)

section \<open>The order of the rate-limit check and validation\<close>

text \<open>
  C10. A POST that the chat limiter admits leaves the caller's entry at the time \<open>now\<close>
  with the count one more than before, or 1 when there was no entry or the entry was
  more than a minute old; every other identity keeps its entry unless that entry is
  more than a minute old, in which case it is purged. The store left does not depend on
  the body or on what parsing and validation make of it: a body that is not JSON and a
  payload that fails validation get their 400 after the count has been taken.
\<close>

theorem admitted_post_consumes_budget:
  assumes "httpMethod event = js ''POST''"
    and "fst (checkRateLimit_chat cfg t0 now store (clientIp event))"
  shows "snd (handler_chat cfg env t0 now store event) (clientIp event) =
           Some \<lparr>count = (case store (clientIp event) of
                             None \<Rightarrow> 1
                           | Some d \<Rightarrow> if timestamp d < t0 - 60000 \<or> timestamp d < now - 60000
                                       then 1 else count d + 1),
                  timestamp = now\<rparr>
       \<and> (\<forall>ip. ip \<noteq> clientIp event \<longrightarrow>
              snd (handler_chat cfg env t0 now store event) ip =
                (case store ip of
                   None \<Rightarrow> None
                 | Some d \<Rightarrow> if timestamp d < t0 - 60000 then None else Some d))
       \<and> (\<forall>env' b. snd (handler_chat cfg env' t0 now store (event\<lparr>body := b\<rparr>)) =
                     snd (handler_chat cfg env t0 now store event))
       \<and> (JSON_parse env (bodyText event) = None \<longrightarrow>
              fst (handler_chat cfg env t0 now store event) =
                \<lparr>statusCode = 400, resp_body = InvalidJson\<rparr>)
       \<and> (\<forall>parsed err. JSON_parse env (bodyText event) = Some parsed \<and>
              validateInput cfg parsed = Inr (ChatInvalid err) \<longrightarrow>
              fst (handler_chat cfg env t0 now store event) =
                \<lparr>statusCode = 400, resp_body = ValidationError err\<rparr>)"
proof -
  let ?ip = "clientIp event"
  have store: "snd (handler_chat cfg env' t0 now store (event\<lparr>body := b\<rparr>)) =
      snd (checkRateLimit_chat cfg t0 now store ?ip)" for env' b
  proof -
    have "httpMethod (event\<lparr>body := b\<rparr>) = js ''POST''"
      using assms(1) by simp
    moreover have "clientIp (event\<lparr>body := b\<rparr>) = ?ip"
      by (simp add: clientIp_def Let_def)
    ultimately show ?thesis
      using handler_chat_store [of "event\<lparr>body := b\<rparr>" cfg env' t0 now store] by simp
  qed
  have same: "snd (handler_chat cfg env t0 now store event) =
      snd (checkRateLimit_chat cfg t0 now store ?ip)"
    using assms(1) by (rule handler_chat_store)
  have own: "snd (checkRateLimit_chat cfg t0 now store ?ip) ?ip =
      Some \<lparr>count = (case store ?ip of
                        None \<Rightarrow> 1
                      | Some d \<Rightarrow> if timestamp d < t0 - 60000 \<or> timestamp d < now - 60000
                                  then 1 else count d + 1),
             timestamp = now\<rparr>"
    using assms(2)
    by (auto simp: checkRateLimit_chat_def cleanupRateLimitStore_def Let_def
        split: option.splits if_splits)
  have others: "\<And>ip. ip \<noteq> ?ip \<Longrightarrow> snd (checkRateLimit_chat cfg t0 now store ?ip) ip =
      (case store ip of
         None \<Rightarrow> None
       | Some d \<Rightarrow> if timestamp d < t0 - 60000 then None else Some d)"
    by (auto simp: checkRateLimit_chat_def cleanupRateLimitStore_def Let_def
        split: option.splits if_splits)
  have resp: "fst (handler_chat cfg env t0 now store event) =
      (case JSON_parse env (bodyText event) of
         None \<Rightarrow> \<lparr>statusCode = 400, resp_body = InvalidJson\<rparr>
       | Some parsed \<Rightarrow>
           (case validateInput cfg parsed of
              Inl e \<Rightarrow> \<lparr>statusCode = 500, resp_body = ServerError DefaultMessage\<rparr>
            | Inr (ChatInvalid err) \<Rightarrow> \<lparr>statusCode = 400, resp_body = ValidationError err\<rparr>
            | Inr (ChatValid data) \<Rightarrow>
                (case callN8nWebhook env data of
                   Inr reply \<Rightarrow> \<lparr>statusCode = 200, resp_body = Forwarded reply\<rparr>
                 | Inl msg \<Rightarrow> errorResponse msg)))"
    using assms by (simp add: handler_chat_post)
  show ?thesis
    using own others by (simp add: store same resp)
qed

theorem admitted_post_consumes_budget_witness:
  "snd (handler_chat (CONFIG (Finite 10) (Finite 30000))
          \<lparr>JSON_parse = (\<lambda>s. None), callN8nWebhook = (\<lambda>d. Inl [])\<rparr> 70000 70000
          [js ''unknown'' \<mapsto> \<lparr>count = 3, timestamp = 50000\<rparr>,
           js ''10.0.0.2'' \<mapsto> \<lparr>count = 2, timestamp = 5000\<rparr>,
           js ''10.0.0.3'' \<mapsto> \<lparr>count = 1, timestamp = 60000\<rparr>]
          \<lparr>httpMethod = js ''POST'', headers = Map.empty, body = Some (js ''{not json'')\<rparr>)
       (js ''unknown'') = Some \<lparr>count = 4, timestamp = 70000\<rparr>
   \<and> snd (handler_chat (CONFIG (Finite 10) (Finite 30000))
          \<lparr>JSON_parse = (\<lambda>s. None), callN8nWebhook = (\<lambda>d. Inl [])\<rparr> 70000 70000
          [js ''unknown'' \<mapsto> \<lparr>count = 3, timestamp = 50000\<rparr>,
           js ''10.0.0.2'' \<mapsto> \<lparr>count = 2, timestamp = 5000\<rparr>,
           js ''10.0.0.3'' \<mapsto> \<lparr>count = 1, timestamp = 60000\<rparr>]
          \<lparr>httpMethod = js ''POST'', headers = Map.empty, body = Some (js ''{not json'')\<rparr>)
       (js ''10.0.0.2'') = None
   \<and> snd (handler_chat (CONFIG (Finite 10) (Finite 30000))
          \<lparr>JSON_parse = (\<lambda>s. None), callN8nWebhook = (\<lambda>d. Inl [])\<rparr> 70000 70000
          [js ''unknown'' \<mapsto> \<lparr>count = 3, timestamp = 50000\<rparr>,
           js ''10.0.0.2'' \<mapsto> \<lparr>count = 2, timestamp = 5000\<rparr>,
           js ''10.0.0.3'' \<mapsto> \<lparr>count = 1, timestamp = 60000\<rparr>]
          \<lparr>httpMethod = js ''POST'', headers = Map.empty, body = Some (js ''{not json'')\<rparr>)
       (js ''10.0.0.3'') = Some \<lparr>count = 1, timestamp = 60000\<rparr>
   \<and> fst (handler_chat (CONFIG (Finite 10) (Finite 30000))
          \<lparr>JSON_parse = (\<lambda>s. None), callN8nWebhook = (\<lambda>d. Inl [])\<rparr> 70000 70000
          [js ''unknown'' \<mapsto> \<lparr>count = 3, timestamp = 50000\<rparr>,
           js ''10.0.0.2'' \<mapsto> \<lparr>count = 2, timestamp = 5000\<rparr>,
           js ''10.0.0.3'' \<mapsto> \<lparr>count = 1, timestamp = 60000\<rparr>]
          \<lparr>httpMethod = js ''POST'', headers = Map.empty, body = Some (js ''{not json'')\<rparr>)
       = \<lparr>statusCode = 400, resp_body = InvalidJson\<rparr>"
proof -
  let ?cfg = "CONFIG (Finite 10) (Finite 30000)"
  let ?env = "\<lparr>JSON_parse = (\<lambda>s. None), callN8nWebhook = (\<lambda>d. Inl [])\<rparr>"
  let ?store = "[js ''unknown'' \<mapsto> \<lparr>count = 3, timestamp = 50000\<rparr>,
           js ''10.0.0.2'' \<mapsto> \<lparr>count = 2, timestamp = 5000\<rparr>,
           js ''10.0.0.3'' \<mapsto> \<lparr>count = 1, timestamp = 60000\<rparr>]"
  let ?event = "\<lparr>httpMethod = js ''POST'', headers = Map.empty, body = Some (js ''{not json'')\<rparr>"
  have ip: "clientIp ?event = js ''unknown''"
    by (simp add: clientIp_def trim_def)
  have post: "httpMethod ?event = js ''POST''"
    by simp
  have admitted: "fst (checkRateLimit_chat ?cfg 70000 70000 ?store (clientIp ?event))"
    by (simp add: ip checkRateLimit_chat_def cleanupRateLimitStore_def Let_def CONFIG_def js_def)
  have neq: "js ''10.0.0.2'' \<noteq> js ''unknown''" "js ''10.0.0.3'' \<noteq> js ''unknown''"
    by (simp_all add: js_def)
  note inst = admitted_post_consumes_budget [OF post admitted, of ?env, unfolded ip]
  from inst neq show ?thesis
    by (simp add: js_def)
qed

text \<open>
  C1, as stated, fails: both handlers ask the limiter before they parse the body. A
  caller at the limit who posts a body that is not JSON gets 429 from the chat proxy,
  and one who posts a payload that fails validation gets 429 from the contact proxy.
\<close>

theorem at_limit_gets_429_not_400:
  "JSON_parse \<lparr>JSON_parse = (\<lambda>s. None), callN8nWebhook = (\<lambda>d. Inl [])\<rparr>
       (bodyText \<lparr>httpMethod = js ''POST'', headers = Map.empty, body = Some (js ''{not json'')\<rparr>)
     = None
   \<and> fst (handler_chat (CONFIG (Finite 10) (Finite 30000))
          \<lparr>JSON_parse = (\<lambda>s. None), callN8nWebhook = (\<lambda>d. Inl [])\<rparr> 70000 70000
          [js ''unknown'' \<mapsto> \<lparr>count = 10, timestamp = 60000\<rparr>]
          \<lparr>httpMethod = js ''POST'', headers = Map.empty, body = Some (js ''{not json'')\<rparr>)
       = \<lparr>statusCode = 429, resp_body = RateLimitExceeded\<rparr>
   \<and> validateAndSanitize (\<lambda>s. s) (js ''2025-01-01T00:00:00.000Z'') (JObj [])
       = Inr ContactInvalid
   \<and> fst (handler_contact \<lparr>N8N_WEBHOOK_URL = True, API_KEY = True\<rparr>
          \<lparr>contact_JSON_parse = (\<lambda>s. Some (JObj [])), toLowerCase = (\<lambda>s. s),
           toISOString = js ''2025-01-01T00:00:00.000Z'', fetch_webhook = (\<lambda>d. FetchFailed)\<rparr>
          70000
          [js ''unknown'' \<mapsto> [60001, 60002, 60003, 60004, 60005, 60006, 60007, 60008, 60009, 60010]]
          \<lparr>httpMethod = js ''POST'', headers = Map.empty, body = Some (js ''{}'')\<rparr>)
       = \<lparr>statusCode = 429, resp_body = TooManyRequests 3591\<rparr>"
proof -
  have "validateAndSanitize (\<lambda>s. s) (js ''2025-01-01T00:00:00.000Z'') (JObj [])
      = Inr ContactInvalid"
    by (simp add: validateAndSanitize_def fieldInvalid_def or_else_def testThrows_def
        lengthThrows_def)
  moreover have "fst (handler_chat (CONFIG (Finite 10) (Finite 30000))
          \<lparr>JSON_parse = (\<lambda>s. None), callN8nWebhook = (\<lambda>d. Inl [])\<rparr> 70000 70000
          [js ''unknown'' \<mapsto> \<lparr>count = 10, timestamp = 60000\<rparr>]
          \<lparr>httpMethod = js ''POST'', headers = Map.empty, body = Some (js ''{not json'')\<rparr>)
       = \<lparr>statusCode = 429, resp_body = RateLimitExceeded\<rparr>"
    by (simp add: handler_chat_post clientIp_def trim_def checkRateLimit_chat_def
        cleanupRateLimitStore_def CONFIG_def)
  moreover have "fst (handler_contact \<lparr>N8N_WEBHOOK_URL = True, API_KEY = True\<rparr>
          \<lparr>contact_JSON_parse = (\<lambda>s. Some (JObj [])), toLowerCase = (\<lambda>s. s),
           toISOString = js ''2025-01-01T00:00:00.000Z'', fetch_webhook = (\<lambda>d. FetchFailed)\<rparr>
          70000
          [js ''unknown'' \<mapsto> [60001, 60002, 60003, 60004, 60005, 60006, 60007, 60008, 60009, 60010]]
          \<lparr>httpMethod = js ''POST'', headers = Map.empty, body = Some (js ''{}'')\<rparr>)
       = \<lparr>statusCode = 429, resp_body = TooManyRequests 3591\<rparr>"
    by (simp add: handler_contact_post clientIP_def checkRateLimit_contact_def
        RATE_LIMIT_WINDOW_def MAX_REQUESTS_PER_HOUR_def ceil_seconds_div)
  ultimately show ?thesis
    by simp
qed

text \<open>
  C1, amended. In both proxies the rate-limit check comes first and validation follows
  it. For a POST that the limiter admits, the chat proxy answers a body that is not
  JSON (an absent or empty body being read as \<open>{}\<close>) with 400 \<open>invalid_json\<close>, and
  the contact proxy answers a payload that \<open>validateAndSanitize\<close> finds invalid with 400
  \<open>Validation failed\<close>; a POST from a caller at the limit gets 429 whatever its body.
\<close>

theorem validation_follows_rate_limit:
  assumes "httpMethod event = js ''POST''"
  shows "(fst (checkRateLimit_chat cfg t0 now store (clientIp event)) \<and>
          JSON_parse env (bodyText event) = None \<longrightarrow>
            fst (handler_chat cfg env t0 now store event) =
              \<lparr>statusCode = 400, resp_body = InvalidJson\<rparr>)
       \<and> (\<not> fst (checkRateLimit_chat cfg t0 now store (clientIp event)) \<longrightarrow>
            fst (handler_chat cfg env t0 now store event) =
              \<lparr>statusCode = 429, resp_body = RateLimitExceeded\<rparr>)
       \<and> (\<forall>d. fst (checkRateLimit_contact now' requests (clientIP event)) = Allowed \<and>
              parseBody cenv event = Some d \<and>
              validateAndSanitize (toLowerCase cenv) (toISOString cenv) d = Inr ContactInvalid \<longrightarrow>
            fst (handler_contact ccfg cenv now' requests event) =
              \<lparr>statusCode = 400, resp_body = ValidationFailed\<rparr>)
       \<and> (\<forall>r. fst (checkRateLimit_contact now' requests (clientIP event)) = Denied r \<longrightarrow>
            fst (handler_contact ccfg cenv now' requests event) =
              \<lparr>statusCode = 429, resp_body = TooManyRequests r\<rparr>)"
  using assms by (simp add: handler_chat_post handler_contact_post)

theorem validation_follows_rate_limit_witness:
  "fst (handler_chat (CONFIG (Finite 10) (Finite 30000))
          \<lparr>JSON_parse = (\<lambda>s. None), callN8nWebhook = (\<lambda>d. Inl [])\<rparr> 70000 70000
          [js ''unknown'' \<mapsto> \<lparr>count = 9, timestamp = 60000\<rparr>]
          \<lparr>httpMethod = js ''POST'', headers = Map.empty, body = Some (js ''{not json'')\<rparr>)
     = \<lparr>statusCode = 400, resp_body = InvalidJson\<rparr>
   \<and> fst (handler_chat (CONFIG (Finite 10) (Finite 30000))
          \<lparr>JSON_parse = (\<lambda>s. None), callN8nWebhook = (\<lambda>d. Inl [])\<rparr> 70000 70000
          [js ''unknown'' \<mapsto> \<lparr>count = 10, timestamp = 60000\<rparr>]
          \<lparr>httpMethod = js ''POST'', headers = Map.empty, body = Some (js ''{not json'')\<rparr>)
     = \<lparr>statusCode = 429, resp_body = RateLimitExceeded\<rparr>
   \<and> fst (handler_contact \<lparr>N8N_WEBHOOK_URL = True, API_KEY = True\<rparr>
          \<lparr>contact_JSON_parse = (\<lambda>s. Some (JObj [])), toLowerCase = (\<lambda>s. s),
           toISOString = js ''2025-01-01T00:00:00.000Z'', fetch_webhook = (\<lambda>d. FetchFailed)\<rparr>
          70000 Map.empty
          \<lparr>httpMethod = js ''POST'', headers = Map.empty, body = Some (js ''{not json'')\<rparr>)
     = \<lparr>statusCode = 400, resp_body = ValidationFailed\<rparr>
   \<and> fst (handler_contact \<lparr>N8N_WEBHOOK_URL = True, API_KEY = True\<rparr>
          \<lparr>contact_JSON_parse = (\<lambda>s. Some (JObj [])), toLowerCase = (\<lambda>s. s),
           toISOString = js ''2025-01-01T00:00:00.000Z'', fetch_webhook = (\<lambda>d. FetchFailed)\<rparr>
          70000
          [js ''unknown'' \<mapsto> [60001, 60002, 60003, 60004, 60005, 60006, 60007, 60008, 60009, 60010]]
          \<lparr>httpMethod = js ''POST'', headers = Map.empty, body = Some (js ''{not json'')\<rparr>)
     = \<lparr>statusCode = 429, resp_body = TooManyRequests 3591\<rparr>"
proof -
  let ?cfg = "CONFIG (Finite 10) (Finite 30000)"
  let ?env = "\<lparr>JSON_parse = (\<lambda>s. None), callN8nWebhook = (\<lambda>d. Inl [])\<rparr>"
  let ?ccfg = "\<lparr>N8N_WEBHOOK_URL = True, API_KEY = True\<rparr>"
  let ?cenv = "\<lparr>contact_JSON_parse = (\<lambda>s. Some (JObj [])), toLowerCase = (\<lambda>s. s),
           toISOString = js ''2025-01-01T00:00:00.000Z'', fetch_webhook = (\<lambda>d. FetchFailed)\<rparr>"
  let ?event = "\<lparr>httpMethod = js ''POST'', headers = Map.empty, body = Some (js ''{not json'')\<rparr>"
  let ?full = "[js ''unknown'' \<mapsto> [60001, 60002, 60003, 60004, 60005, 60006, 60007, 60008, 60009, 60010 :: int]]"
  have post: "httpMethod ?event = js ''POST''"
    by simp
  have ip: "clientIp ?event = js ''unknown''" "clientIP ?event = js ''unknown''"
    by (simp_all add: clientIp_def clientIP_def trim_def)
  have admitted: "fst (checkRateLimit_chat ?cfg 70000 70000
      [js ''unknown'' \<mapsto> \<lparr>count = 9, timestamp = 60000\<rparr>] (clientIp ?event))"
    by (simp add: ip checkRateLimit_chat_def cleanupRateLimitStore_def CONFIG_def)
  have denied: "\<not> fst (checkRateLimit_chat ?cfg 70000 70000
      [js ''unknown'' \<mapsto> \<lparr>count = 10, timestamp = 60000\<rparr>] (clientIp ?event))"
    by (simp add: ip checkRateLimit_chat_def cleanupRateLimitStore_def CONFIG_def)
  have allowed: "fst (checkRateLimit_contact 70000 Map.empty (clientIP ?event)) = Allowed"
    by (simp add: ip checkRateLimit_contact_def MAX_REQUESTS_PER_HOUR_def)
  have full: "fst (checkRateLimit_contact 70000 ?full (clientIP ?event)) = Denied 3591"
    by (simp add: ip checkRateLimit_contact_def RATE_LIMIT_WINDOW_def MAX_REQUESTS_PER_HOUR_def
        ceil_seconds_div)
  have invalid: "validateAndSanitize (toLowerCase ?cenv) (toISOString ?cenv) (JObj [])
      = Inr ContactInvalid"
    by (simp add: validateAndSanitize_def fieldInvalid_def or_else_def testThrows_def
        lengthThrows_def)
  have parsed: "parseBody ?cenv ?event = Some (JObj [])"
    by (simp add: parseBody_def)
  note a = validation_follows_rate_limit [OF post, of ?cfg 70000 70000
      "[js ''unknown'' \<mapsto> \<lparr>count = 9, timestamp = 60000\<rparr>]" ?env 70000 Map.empty ?cenv ?ccfg]
  note b = validation_follows_rate_limit [OF post, of ?cfg 70000 70000
      "[js ''unknown'' \<mapsto> \<lparr>count = 10, timestamp = 60000\<rparr>]" ?env 70000 ?full ?cenv ?ccfg]
  have "fst (handler_chat ?cfg ?env 70000 70000
      [js ''unknown'' \<mapsto> \<lparr>count = 9, timestamp = 60000\<rparr>] ?event)
      = \<lparr>statusCode = 400, resp_body = InvalidJson\<rparr>"
    using a admitted by simp
  moreover have "fst (handler_chat ?cfg ?env 70000 70000
      [js ''unknown'' \<mapsto> \<lparr>count = 10, timestamp = 60000\<rparr>] ?event)
      = \<lparr>statusCode = 429, resp_body = RateLimitExceeded\<rparr>"
    using b denied by simp
  moreover have "fst (handler_contact ?ccfg ?cenv 70000 Map.empty ?event)
      = \<lparr>statusCode = 400, resp_body = ValidationFailed\<rparr>"
    using a allowed parsed invalid by simp
  moreover have "fst (handler_contact ?ccfg ?cenv 70000 ?full ?event)
      = \<lparr>statusCode = 429, resp_body = TooManyRequests 3591\<rparr>"
    using b full by simp
  ultimately show ?thesis
    by simp
qed

section \<open>Validation in the chat proxy\<close>

lemma validateHistory_errors:
  \<open>validateHistory items = Inr (Some err) \<Longrightarrow>
     err = ''Invalid history format'' \<or> err = ''History role must be "user" or "assistant"''\<close>
  by (induction items) (auto split: if_splits)

lemma validateHistory_not_messageError:
  "validateHistory items = Inr (Some err) \<Longrightarrow> err \<notin> messageErrors"
  by (drule validateHistory_errors) (auto simp: messageErrors_def)

text \<open>
  \<open>validateInput\<close> on a payload whose \<open>language\<close> and \<open>sessionId\<close> pass: the three
  checks of the message, then the history.
\<close>

lemma validateInput_message:
  assumes "get payload (js ''language'') \<in> {Some (JStr (js ''ja'')), Some (JStr (js ''en''))}"
    and "get payload (js ''sessionId'') = Some (JStr sid)" and "sid \<noteq> []"
  shows "validateInput (CONFIG p t) payload =
     (if \<not> isString (get payload (js ''message'')) \<or> str_of (get payload (js ''message'')) = []
      then Inr (ChatInvalid ''Message is required and must be a string'')
      else if length (str_of (get payload (js ''message''))) > 500
      then Inr (ChatInvalid ''Message too long (max 500 characters)'')
      else if trim (str_of (get payload (js ''message''))) = []
      then Inr (ChatInvalid ''Message cannot be empty'')
      else
        (case validateHistory (case get payload (js ''history'') of
                                 Some (JArr items) \<Rightarrow> slice_last 5 items
                               | _ \<Rightarrow> []) of
           Inl e \<Rightarrow> Inl e
         | Inr (Some err) \<Rightarrow> Inr (ChatInvalid err)
         | Inr None \<Rightarrow>
             Inr (ChatValid \<lparr>message = trim (str_of (get payload (js ''message''))),
                             language = str_of (get payload (js ''language'')),
                             sessionId = sid,
                             history = (case get payload (js ''history'') of
                                          Some (JArr items) \<Rightarrow> slice_last 5 items
                                        | _ \<Rightarrow> [])\<rparr>)))"
proof -
  obtain kvs where obj: "payload = JObj kvs"
    using assms(2) by (cases payload) simp_all
  have shape: "truthy (Some payload)" "isObject payload"
    by (simp_all add: obj)
  have lang: "truthy (get payload (js ''language''))"
    using assms(1) by (auto simp: js_def)
  have sid: "truthy (get payload (js ''sessionId''))" "isString (get payload (js ''sessionId''))"
      "str_of (get payload (js ''sessionId'')) = sid"
    using assms(2,3) by simp_all
  have blank: "trim [] = []"
    by (simp add: trim_def)
  have limits: "MAX_MESSAGE_LENGTH (CONFIG p t) = 500" "MAX_HISTORY_LENGTH (CONFIG p t) = 5"
    by (simp_all add: CONFIG_def)
  show ?thesis
  proof (cases "isString (get payload (js ''message''))")
    case False
    then show ?thesis
      unfolding validateInput_def using shape by simp
  next
    case True
    then obtain m where m: "get payload (js ''message'') = Some (JStr m)"
      by (cases "get payload (js ''message'')" rule: isString.cases) simp_all
    show ?thesis
      unfolding validateInput_def m limits sid(3)
      using shape lang sid(1,2) assms(1) blank
      by (simp add: Let_def)
  qed
qed

text \<open>
  C4, as stated, fails: the limit of 500 is on the length before trimming. A message
  of 500 spaces and a letter has length 1 after trimming and is rejected as too long.
\<close>

theorem padded_message_rejected:
  "length (trim (replicate 500 0x20 @ js ''a'')) = 1
   \<and> validateInput (CONFIG (Finite 10) (Finite 30000))
        (JObj [(js ''message'', JStr (replicate 500 0x20 @ js ''a'')),
               (js ''language'', JStr (js ''ja'')),
               (js ''sessionId'', JStr (js ''abc''))])
     = Inr (ChatInvalid ''Message too long (max 500 characters)'')"
proof -
  have "trim (replicate 500 0x20 @ js ''a'') = js ''a''"
    using trim_padded [of "of_char CHR ''a''" 500] by (simp add: js_def isWhiteSpace_def)
  moreover have "validateInput (CONFIG (Finite 10) (Finite 30000))
        (JObj [(js ''message'', JStr (replicate 500 0x20 @ js ''a'')),
               (js ''language'', JStr (js ''ja'')),
               (js ''sessionId'', JStr (js ''abc''))])
     = Inr (ChatInvalid ''Message too long (max 500 characters)'')"
    by (subst validateInput_message [where sid = "js ''abc''"]) (simp_all add: js_def)
  ultimately show ?thesis
    by (simp add: js_def)
qed

text \<open>
  C4, amended. For a POST that the limiter admits and whose payload has a language of
  \<open>ja\<close> or \<open>en\<close> and a non-empty string as session id, the chat proxy answers 400
  \<open>validation_error\<close> with an error on the message exactly when the message is absent,
  not a string, longer than 500 before trimming, or empty after trimming. An empty
  message is told that the message is required, a message of more than 500 characters
  that it is too long; a message of at most 500 characters that is not blank passes,
  and with no history the payload is valid with the message trimmed.
\<close>

theorem message_rejected_iff:
  assumes "httpMethod event = js ''POST''"
    and "fst (checkRateLimit_chat (CONFIG p t) t0 now store (clientIp event))"
    and "JSON_parse env (bodyText event) = Some payload"
    and "get payload (js ''language'') \<in> {Some (JStr (js ''ja'')), Some (JStr (js ''en''))}"
    and "get payload (js ''sessionId'') = Some (JStr sid)" and "sid \<noteq> []"
  shows "((\<exists>err \<in> messageErrors.
            fst (handler_chat (CONFIG p t) env t0 now store event) =
              \<lparr>statusCode = 400, resp_body = ValidationError err\<rparr>) \<longleftrightarrow>
          (\<not> isString (get payload (js ''message'')) \<or>
           length (str_of (get payload (js ''message''))) > 500 \<or>
           length (trim (str_of (get payload (js ''message'')))) = 0))
       \<and> (get payload (js ''message'') = Some (JStr []) \<longrightarrow>
            fst (handler_chat (CONFIG p t) env t0 now store event) =
              \<lparr>statusCode = 400,
               resp_body = ValidationError ''Message is required and must be a string''\<rparr>)
       \<and> (\<forall>m. get payload (js ''message'') = Some (JStr m) \<and> length m > 500 \<longrightarrow>
            fst (handler_chat (CONFIG p t) env t0 now store event) =
              \<lparr>statusCode = 400,
               resp_body = ValidationError ''Message too long (max 500 characters)''\<rparr>)
       \<and> (\<forall>m. get payload (js ''message'') = Some (JStr m) \<and> length m \<le> 500 \<and>
              1 \<le> length (trim m) \<and> get payload (js ''history'') = None \<longrightarrow>
            validateInput (CONFIG p t) payload =
              Inr (ChatValid \<lparr>message = trim m,
                              language = str_of (get payload (js ''language'')),
                              sessionId = sid, history = []\<rparr>))"
proof -
  let ?msg = "get payload (js ''message'')"
  let ?r = "fst (handler_chat (CONFIG p t) env t0 now store event)"
  note v = validateInput_message [OF assms(4-6), of p t]
  have resp: "?r =
      (case validateInput (CONFIG p t) payload of
         Inl e \<Rightarrow> \<lparr>statusCode = 500, resp_body = ServerError DefaultMessage\<rparr>
       | Inr (ChatInvalid err) \<Rightarrow> \<lparr>statusCode = 400, resp_body = ValidationError err\<rparr>
       | Inr (ChatValid data) \<Rightarrow>
           (case callN8nWebhook env data of
              Inr reply \<Rightarrow> \<lparr>statusCode = 200, resp_body = Forwarded reply\<rparr>
            | Inl msg \<Rightarrow> errorResponse msg))"
    using assms(1-3) by (simp add: handler_chat_post)
  have blank: "str_of ?msg = [] \<Longrightarrow> trim (str_of ?msg) = []"
    by (simp add: trim_def)
  have bad: "\<not> isString ?msg \<or> length (str_of ?msg) > 500 \<or> length (trim (str_of ?msg)) = 0
      \<Longrightarrow> \<exists>err \<in> messageErrors. ?r = \<lparr>statusCode = 400, resp_body = ValidationError err\<rparr>"
    using blank by (auto simp: resp v messageErrors_def)
  have good: "\<not> (\<exists>err \<in> messageErrors. ?r = \<lparr>statusCode = 400, resp_body = ValidationError err\<rparr>)"
    if "isString ?msg" "length (str_of ?msg) \<le> 500" "length (trim (str_of ?msg)) \<noteq> 0"
  proof -
    have ne: "str_of ?msg \<noteq> []"
      using that(3) by (auto simp: trim_def)
    show ?thesis
      using that ne
      by (auto simp: resp v errorResponse_def
          dest: validateHistory_not_messageError split: sum.splits option.splits)
  qed
  have iff: "(\<exists>err \<in> messageErrors. ?r = \<lparr>statusCode = 400, resp_body = ValidationError err\<rparr>) \<longleftrightarrow>
      (\<not> isString ?msg \<or> length (str_of ?msg) > 500 \<or> length (trim (str_of ?msg)) = 0)"
    using bad good by (meson not_le_imp_less)
  have empty: "?msg = Some (JStr []) \<longrightarrow>
      ?r = \<lparr>statusCode = 400,
            resp_body = ValidationError ''Message is required and must be a string''\<rparr>"
    by (simp add: resp v)
  have long: "\<forall>m. ?msg = Some (JStr m) \<and> length m > 500 \<longrightarrow>
      ?r = \<lparr>statusCode = 400,
            resp_body = ValidationError ''Message too long (max 500 characters)''\<rparr>"
    by (auto simp: resp v)
  have ok: "\<forall>m. ?msg = Some (JStr m) \<and> length m \<le> 500 \<and> 1 \<le> length (trim m) \<and>
        get payload (js ''history'') = None \<longrightarrow>
      validateInput (CONFIG p t) payload =
        Inr (ChatValid \<lparr>message = trim m, language = str_of (get payload (js ''language'')),
                        sessionId = sid, history = []\<rparr>)"
  proof (intro allI impI)
    fix m
    assume a: "?msg = Some (JStr m) \<and> length m \<le> 500 \<and> 1 \<le> length (trim m) \<and>
        get payload (js ''history'') = None"
    then have "trim m \<noteq> []"
      by auto
    moreover from this have "m \<noteq> []"
      by (auto simp: trim_def)
    ultimately show "validateInput (CONFIG p t) payload =
        Inr (ChatValid \<lparr>message = trim m, language = str_of (get payload (js ''language'')),
                        sessionId = sid, history = []\<rparr>)"
      using a by (simp add: v)
  qed
  from iff empty long ok show ?thesis
    by blast
qed

theorem message_rejected_iff_witness:
  "fst (handler_chat (CONFIG (Finite 10) (Finite 30000))
         \<lparr>JSON_parse = (\<lambda>s. Some (JObj [(js ''message'', JStr []),
                                        (js ''language'', JStr (js ''ja'')),
                                        (js ''sessionId'', JStr (js ''abc''))])),
          callN8nWebhook = (\<lambda>d. Inl [])\<rparr>
         70000 70000 Map.empty
         \<lparr>httpMethod = js ''POST'', headers = Map.empty, body = Some (js ''x'')\<rparr>)
     = \<lparr>statusCode = 400,
        resp_body = ValidationError ''Message is required and must be a string''\<rparr>
   \<and> fst (handler_chat (CONFIG (Finite 10) (Finite 30000))
         \<lparr>JSON_parse = (\<lambda>s. Some (JObj [(js ''message'', JStr (replicate 501 0x78)),
                                        (js ''language'', JStr (js ''ja'')),
                                        (js ''sessionId'', JStr (js ''abc''))])),
          callN8nWebhook = (\<lambda>d. Inl [])\<rparr>
         70000 70000 Map.empty
         \<lparr>httpMethod = js ''POST'', headers = Map.empty, body = Some (js ''x'')\<rparr>)
     = \<lparr>statusCode = 400,
        resp_body = ValidationError ''Message too long (max 500 characters)''\<rparr>
   \<and> validateInput (CONFIG (Finite 10) (Finite 30000))
         (JObj [(js ''message'', JStr (js ''  hello '')),
                (js ''language'', JStr (js ''en'')),
                (js ''sessionId'', JStr (js ''abc''))])
     = Inr (ChatValid \<lparr>message = js ''hello'', language = js ''en'',
                       sessionId = js ''abc'', history = []\<rparr>)"
proof -
  let ?event = "\<lparr>httpMethod = js ''POST'', headers = Map.empty, body = Some (js ''x'')\<rparr>"
  let ?empty = "JObj [(js ''message'', JStr []), (js ''language'', JStr (js ''ja'')),
                      (js ''sessionId'', JStr (js ''abc''))]"
  let ?long = "JObj [(js ''message'', JStr (replicate 501 0x78)),
                     (js ''language'', JStr (js ''ja'')),
                     (js ''sessionId'', JStr (js ''abc''))]"
  let ?good = "JObj [(js ''message'', JStr (js ''  hello '')),
                     (js ''language'', JStr (js ''en'')),
                     (js ''sessionId'', JStr (js ''abc''))]"
  have post: "httpMethod ?event = js ''POST''"
    by simp
  have admitted: "fst (checkRateLimit_chat (CONFIG (Finite 10) (Finite 30000)) 70000 70000 Map.empty (clientIp ?event))"
    by (simp add: checkRateLimit_chat_def cleanupRateLimitStore_def)
  have sid: "js ''abc'' \<noteq> []"
    by (simp add: js_def)
  have fields:
    "get ?empty (js ''language'') \<in> {Some (JStr (js ''ja'')), Some (JStr (js ''en''))}"
    "get ?empty (js ''sessionId'') = Some (JStr (js ''abc''))"
    "get ?empty (js ''message'') = Some (JStr [])"
    "get ?long (js ''language'') \<in> {Some (JStr (js ''ja'')), Some (JStr (js ''en''))}"
    "get ?long (js ''sessionId'') = Some (JStr (js ''abc''))"
    "get ?long (js ''message'') = Some (JStr (replicate 501 0x78))"
    "get ?good (js ''language'') \<in> {Some (JStr (js ''ja'')), Some (JStr (js ''en''))}"
    "get ?good (js ''sessionId'') = Some (JStr (js ''abc''))"
    "get ?good (js ''message'') = Some (JStr (js ''  hello ''))"
    "get ?good (js ''history'') = None"
    "str_of (get ?good (js ''language'')) = js ''en''"
    by (simp_all add: js_def)
  have trimmed: "trim (js ''  hello '') = js ''hello''"
    by (simp add: trim_def js_def isWhiteSpace_def)
  have len: "length (js ''  hello '') \<le> 500" "1 \<le> length (js ''hello'')"
    by (simp_all add: js_def)
  note a = message_rejected_iff [OF post admitted _ fields(1) fields(2) sid,
      where env = "\<lparr>JSON_parse = (\<lambda>s. Some ?empty), callN8nWebhook = (\<lambda>d. Inl [])\<rparr>"]
  note b = message_rejected_iff [OF post admitted _ fields(4) fields(5) sid,
      where env = "\<lparr>JSON_parse = (\<lambda>s. Some ?long), callN8nWebhook = (\<lambda>d. Inl [])\<rparr>"]
  note c = message_rejected_iff [OF post admitted _ fields(7) fields(8) sid,
      where env = "\<lparr>JSON_parse = (\<lambda>s. Some ?good), callN8nWebhook = (\<lambda>d. Inl [])\<rparr>"]
  have "fst (handler_chat (CONFIG (Finite 10) (Finite 30000))
         \<lparr>JSON_parse = (\<lambda>s. Some ?empty), callN8nWebhook = (\<lambda>d. Inl [])\<rparr>
         70000 70000 Map.empty ?event)
     = \<lparr>statusCode = 400,
        resp_body = ValidationError ''Message is required and must be a string''\<rparr>"
    using a fields(3) by simp
  moreover have "fst (handler_chat (CONFIG (Finite 10) (Finite 30000))
         \<lparr>JSON_parse = (\<lambda>s. Some ?long), callN8nWebhook = (\<lambda>d. Inl [])\<rparr>
         70000 70000 Map.empty ?event)
     = \<lparr>statusCode = 400,
        resp_body = ValidationError ''Message too long (max 500 characters)''\<rparr>"
    using b fields(6) by simp
  moreover have "validateInput (CONFIG (Finite 10) (Finite 30000)) ?good
     = Inr (ChatValid \<lparr>message = js ''hello'', language = js ''en'',
                       sessionId = js ''abc'', history = []\<rparr>)"
    using c fields(9,10,11) trimmed len by simp
  ultimately show ?thesis
    by simp
qed

lemma validateHistory_empty_content:
  assumes "\<forall>item \<in> set items. wireEntry item"
    and "\<exists>item \<in> set items. get item (js ''content'') = Some (JStr [])"
  shows "validateHistory items = Inr (Some ''Invalid history format'')"
  using assms
proof (induction items)
  case Nil
  then show ?case by simp
next
  case (Cons item rest)
  from Cons.prems(1) have shape: "wireEntry item"
    by simp
  then have role: "truthy (get item (js ''role''))" "isString (get item (js ''role''))"
      "get item (js ''role'') \<in> {Some (JStr (js ''user'')), Some (JStr (js ''assistant''))}"
    by (auto simp: wireEntry_def js_def)
  from shape have notnull: "item \<noteq> JNull"
    by (auto simp: wireEntry_def)
  from shape obtain c where c: "get item (js ''content'') = Some (JStr c)"
    by (cases "get item (js ''content'')" rule: isString.cases) (simp_all add: wireEntry_def)
  show ?case
  proof (cases "c = []")
    case True
    then show ?thesis
      using notnull c by simp
  next
    case False
    with c Cons.prems(2) have "\<exists>item \<in> set rest. get item (js ''content'') = Some (JStr [])"
      by auto
    with Cons.IH Cons.prems(1) have "validateHistory rest = Inr (Some ''Invalid history format'')"
      by simp
    then show ?thesis
      using notnull c False role by simp
  qed
qed

text \<open>
  C9, as stated, fails: only the last five entries of the history are validated. In a
  history of six entries whose first has an empty content the payload is valid, the
  first entry is dropped and the request is forwarded.
\<close>

theorem old_empty_entry_accepted:
  "validateInput (CONFIG (Finite 10) (Finite 30000))
     (JObj [(js ''message'', JStr (js ''hello'')),
            (js ''language'', JStr (js ''ja'')),
            (js ''sessionId'', JStr (js ''abc'')),
            (js ''history'', JArr
               [JObj [(js ''role'', JStr (js ''user'')), (js ''content'', JStr [])],
                JObj [(js ''role'', JStr (js ''assistant'')), (js ''content'', JStr (js ''a''))],
                JObj [(js ''role'', JStr (js ''user'')), (js ''content'', JStr (js ''b''))],
                JObj [(js ''role'', JStr (js ''assistant'')), (js ''content'', JStr (js ''c''))],
                JObj [(js ''role'', JStr (js ''user'')), (js ''content'', JStr (js ''d''))],
                JObj [(js ''role'', JStr (js ''assistant'')), (js ''content'', JStr (js ''e''))]])])
   = Inr (ChatValid
       \<lparr>message = js ''hello'', language = js ''ja'', sessionId = js ''abc'',
        history =
          [JObj [(js ''role'', JStr (js ''assistant'')), (js ''content'', JStr (js ''a''))],
           JObj [(js ''role'', JStr (js ''user'')), (js ''content'', JStr (js ''b''))],
           JObj [(js ''role'', JStr (js ''assistant'')), (js ''content'', JStr (js ''c''))],
           JObj [(js ''role'', JStr (js ''user'')), (js ''content'', JStr (js ''d''))],
           JObj [(js ''role'', JStr (js ''assistant'')), (js ''content'', JStr (js ''e''))]]\<rparr>)"
  by (subst validateInput_message [where sid = "js ''abc''"])
    (simp_all add: js_def trim_def isWhiteSpace_def slice_last_def)

text \<open>
  C9, amended. For a payload that is valid in all other respects and whose history is
  an array, if the last five entries of the history are of the wire shape and one of
  them has the empty string as content, \<open>validateInput\<close> returns invalid with
  \<open>Invalid history format\<close>, and the handler answers a POST that the limiter admits
  with 400 \<open>validation_error\<close>.
\<close>

theorem empty_content_rejected:
  assumes "httpMethod event = js ''POST''"
    and "fst (checkRateLimit_chat (CONFIG p t) t0 now store (clientIp event))"
    and "JSON_parse env (bodyText event) = Some payload"
    and "get payload (js ''language'') \<in> {Some (JStr (js ''ja'')), Some (JStr (js ''en''))}"
    and "get payload (js ''sessionId'') = Some (JStr sid)" and "sid \<noteq> []"
    and "get payload (js ''message'') = Some (JStr m)" and "length m \<le> 500" and "trim m \<noteq> []"
    and "get payload (js ''history'') = Some (JArr items)"
    and "\<forall>item \<in> set (slice_last 5 items). wireEntry item"
    and "\<exists>item \<in> set (slice_last 5 items). get item (js ''content'') = Some (JStr [])"
  shows "validateInput (CONFIG p t) payload = Inr (ChatInvalid ''Invalid history format'')
       \<and> fst (handler_chat (CONFIG p t) env t0 now store event) =
           \<lparr>statusCode = 400, resp_body = ValidationError ''Invalid history format''\<rparr>"
proof -
  have hist: "validateHistory (slice_last 5 items) = Inr (Some ''Invalid history format'')"
    using assms(11,12) by (rule validateHistory_empty_content)
  have "m \<noteq> []"
    using assms(9) by (auto simp: trim_def)
  then have v: "validateInput (CONFIG p t) payload = Inr (ChatInvalid ''Invalid history format'')"
    using assms(7-10) hist by (simp add: validateInput_message [OF assms(4-6)])
  then show ?thesis
    using assms(1-3) by (simp add: handler_chat_post)
qed

theorem empty_content_rejected_witness:
  "validateInput (CONFIG (Finite 10) (Finite 30000))
     (JObj [(js ''message'', JStr (js ''hello'')),
            (js ''language'', JStr (js ''ja'')),
            (js ''sessionId'', JStr (js ''abc'')),
            (js ''history'', JArr
               [JObj [(js ''role'', JStr (js ''user'')), (js ''content'', JStr (js ''a''))],
                JObj [(js ''role'', JStr (js ''assistant'')), (js ''content'', JStr [])]])])
     = Inr (ChatInvalid ''Invalid history format'')
   \<and> fst (handler_chat (CONFIG (Finite 10) (Finite 30000))
         \<lparr>JSON_parse = (\<lambda>s. Some
            (JObj [(js ''message'', JStr (js ''hello'')),
                   (js ''language'', JStr (js ''ja'')),
                   (js ''sessionId'', JStr (js ''abc'')),
                   (js ''history'', JArr
                      [JObj [(js ''role'', JStr (js ''user'')), (js ''content'', JStr (js ''a''))],
                       JObj [(js ''role'', JStr (js ''assistant'')), (js ''content'', JStr [])]])])),
          callN8nWebhook = (\<lambda>d. Inl [])\<rparr>
         70000 70000 Map.empty
         \<lparr>httpMethod = js ''POST'', headers = Map.empty, body = Some (js ''x'')\<rparr>)
     = \<lparr>statusCode = 400, resp_body = ValidationError ''Invalid history format''\<rparr>"
proof -
  let ?event = "\<lparr>httpMethod = js ''POST'', headers = Map.empty, body = Some (js ''x'')\<rparr>"
  let ?items = "[JObj [(js ''role'', JStr (js ''user'')), (js ''content'', JStr (js ''a''))],
                 JObj [(js ''role'', JStr (js ''assistant'')), (js ''content'', JStr [])]]"
  let ?payload = "JObj [(js ''message'', JStr (js ''hello'')),
            (js ''language'', JStr (js ''ja'')),
            (js ''sessionId'', JStr (js ''abc'')),
            (js ''history'', JArr ?items)]"
  let ?env = "\<lparr>JSON_parse = (\<lambda>s. Some ?payload), callN8nWebhook = (\<lambda>d. Inl [])\<rparr>"
  have post: "httpMethod ?event = js ''POST''"
    by simp
  have admitted: "fst (checkRateLimit_chat (CONFIG (Finite 10) (Finite 30000)) 70000 70000 Map.empty (clientIp ?event))"
    by (simp add: checkRateLimit_chat_def cleanupRateLimitStore_def)
  have parsed: "JSON_parse ?env (bodyText ?event) = Some ?payload"
    by simp
  have lang: "get ?payload (js ''language'') \<in> {Some (JStr (js ''ja'')), Some (JStr (js ''en''))}"
    by (simp add: js_def)
  have sid: "get ?payload (js ''sessionId'') = Some (JStr (js ''abc''))" "js ''abc'' \<noteq> []"
    by (simp_all add: js_def)
  have msg: "get ?payload (js ''message'') = Some (JStr (js ''hello''))"
      "length (js ''hello'') \<le> 500" "trim (js ''hello'') \<noteq> []"
    by (simp_all add: js_def trim_def isWhiteSpace_def)
  have hist: "get ?payload (js ''history'') = Some (JArr ?items)"
    by (simp add: js_def)
  have shape: "\<forall>item \<in> set (slice_last 5 ?items). wireEntry item"
    by (simp add: slice_last_def wireEntry_def js_def)
  have empty: "\<exists>item \<in> set (slice_last 5 ?items). get item (js ''content'') = Some (JStr [])"
    by (simp add: slice_last_def js_def)
  show ?thesis
    using empty_content_rejected [OF post admitted parsed lang sid msg hist shape empty]
    by simp
qed

section \<open>Retries of the widget's request\<close>

declare callAI.simps [simp del]

text \<open>The outcome of one attempt, by the class of the failure.\<close>

lemma tryBlock_server_error:
  assumes "status \<ge> 500" and "status \<noteq> 504"
  shows "tryBlock (Response status parsed) = Inl (Error (js ''SERVER_ERROR''))"
  using assms by (simp add: tryBlock_def)

lemma Error_fields:
  "err_name (Error msg) \<noteq> js ''AbortError''" "\<not> isTypeError (Error msg)"
  "err_message (Error msg) = msg"
  by (simp_all add: Error_def js_def)

text \<open>A call that may not retry any more sends one request.\<close>

lemma callAI_last:
  assumes "\<not> retryCount < RETRY_ATTEMPTS"
  shows "snd (callAI net retryCount) = [Fetch]"
  using assms
  by (subst callAI.simps) (simp split: sum.splits)

text \<open>A call whose attempt fails with a server or API error, with retries left.\<close>

lemma callAI_retry:
  assumes "tryBlock (net retryCount) = Inl (Error msg)"
    and "msg = js ''SERVER_ERROR'' \<or> msg = js ''API_ERROR''"
    and "retryCount < RETRY_ATTEMPTS"
  shows "callAI net retryCount =
           (fst (callAI net (retryCount + 1)),
            Fetch # Sleep (1000 * (retryCount + 1)) # snd (callAI net (retryCount + 1)))"
  using assms
  by (subst callAI.simps) (auto simp: Error_fields split: prod.splits)

text \<open>A call whose attempt fails with any other error, or that may not retry.\<close>

lemma callAI_give_up:
  assumes "tryBlock (net retryCount) = Inl (Error msg)"
    and "\<not> retryCount < RETRY_ATTEMPTS \<or> (msg \<noteq> js ''SERVER_ERROR'' \<and> msg \<noteq> js ''API_ERROR'')"
  shows "callAI net retryCount = (Inl (Error msg), [Fetch])"
  using assms
  by (subst callAI.simps) (auto simp: Error_fields)

lemma callAI_effects_step:
  "snd (callAI net retryCount) = [Fetch] \<or>
   (retryCount < RETRY_ATTEMPTS \<and>
    snd (callAI net retryCount) =
      Fetch # Sleep (1000 * (retryCount + 1)) # snd (callAI net (retryCount + 1)))"
  by (subst (1 2) callAI.simps) (simp split: sum.splits prod.splits)

text \<open>
  C2, as stated, fails at the status 504: it is at least 500, yet it is classed as a
  timeout, so three such responses in a row are one attempt and \<open>TIMEOUT\<close>.
\<close>

theorem status_504_not_retried:
  "(504 :: nat) \<ge> 500
   \<and> callAI (\<lambda>k. Response 504 (Inr JNull)) 0 = (Inl (Error (js ''TIMEOUT'')), [Fetch])"
proof -
  have "tryBlock (Response 504 (Inr JNull)) = Inl (Error (js ''TIMEOUT''))"
    by (simp add: tryBlock_def)
  then have "callAI (\<lambda>k. Response 504 (Inr JNull)) 0 = (Inl (Error (js ''TIMEOUT'')), [Fetch])"
    by (intro callAI_give_up) (simp_all add: js_def)
  then show ?thesis
    by simp
qed

text \<open>
  C2, amended. A call of \<open>callAI\<close> sends one request and at most two more, waiting
  1000 ms before the first retry and 2000 ms before the second. Given three responses
  in a row with a status of at least 500 other than 504 it sends exactly three requests
  and then throws \<open>SERVER_ERROR\<close>. A failure classed as \<open>TIMEOUT\<close> (the abort of the
  timer, or the status 504), \<open>RATE_LIMIT\<close> (the status 429) or \<open>NETWORK_ERROR\<close> is
  thrown at once, whatever the number of retries left.
\<close>

theorem callAI_retry_bound:
  "snd (callAI net 0) \<in>
      {[Fetch], [Fetch, Sleep 1000, Fetch], [Fetch, Sleep 1000, Fetch, Sleep 2000, Fetch]}
   \<and> ((\<forall>k < 3. \<exists>status parsed. net k = Response status parsed \<and> status \<ge> 500 \<and> status \<noteq> 504)
        \<longrightarrow> callAI net 0 =
              (Inl (Error (js ''SERVER_ERROR'')),
               [Fetch, Sleep 1000, Fetch, Sleep 2000, Fetch]))
   \<and> (\<forall>k e. net k = Rejected e \<and> err_name e = js ''AbortError''
        \<longrightarrow> callAI net k = (Inl (Error (js ''TIMEOUT'')), [Fetch]))
   \<and> (\<forall>k parsed. net k = Response 504 parsed
        \<longrightarrow> callAI net k = (Inl (Error (js ''TIMEOUT'')), [Fetch]))
   \<and> (\<forall>k parsed. net k = Response 429 parsed
        \<longrightarrow> callAI net k = (Inl (Error (js ''RATE_LIMIT'')), [Fetch]))
   \<and> (\<forall>k e. net k = Rejected e \<and> err_name e \<noteq> js ''AbortError'' \<and> isTypeError e \<and>
            str_includes (err_message e) (js ''fetch'')
        \<longrightarrow> callAI net k = (Inl (Error (js ''NETWORK_ERROR'')), [Fetch]))"
proof -
  have two: "snd (callAI net 2) = [Fetch]"
    by (rule callAI_last) (simp add: RETRY_ATTEMPTS_def)
  have one: "snd (callAI net 1) = [Fetch] \<or> snd (callAI net 1) = [Fetch, Sleep 2000, Fetch]"
    using callAI_effects_step [of net 1] two by (auto simp: numeral_2_eq_2)
  have zero: "snd (callAI net 0) = [Fetch] \<or>
      snd (callAI net 0) = Fetch # Sleep 1000 # snd (callAI net 1)"
    using callAI_effects_step [of net 0] by auto
  have effects: "snd (callAI net 0) \<in>
      {[Fetch], [Fetch, Sleep 1000, Fetch], [Fetch, Sleep 1000, Fetch, Sleep 2000, Fetch]}"
    using zero one by auto
  have server: "callAI net 0 =
      (Inl (Error (js ''SERVER_ERROR'')), [Fetch, Sleep 1000, Fetch, Sleep 2000, Fetch])"
    if all: "\<forall>k < 3. \<exists>status parsed. net k = Response status parsed \<and> status \<ge> 500 \<and> status \<noteq> 504"
  proof -
    have t: "tryBlock (net k) = Inl (Error (js ''SERVER_ERROR''))" if "k < 3" for k
      using all that tryBlock_server_error by fastforce
    have t0: "tryBlock (net 0) = Inl (Error (js ''SERVER_ERROR''))"
      and t1: "tryBlock (net 1) = Inl (Error (js ''SERVER_ERROR''))"
      and t2: "tryBlock (net 2) = Inl (Error (js ''SERVER_ERROR''))"
      by (simp_all add: t)
    have c2: "callAI net 2 = (Inl (Error (js ''SERVER_ERROR'')), [Fetch])"
      using t2 by (rule callAI_give_up) (simp add: RETRY_ATTEMPTS_def)
    have "callAI net 1 = (fst (callAI net (1 + 1)), Fetch # Sleep (1000 * (1 + 1)) # snd (callAI net (1 + 1)))"
      using t1 by (rule callAI_retry) (simp_all add: RETRY_ATTEMPTS_def)
    moreover have "(1 :: nat) + 1 = 2"
      by simp
    ultimately have c1: "callAI net 1 = (Inl (Error (js ''SERVER_ERROR'')), [Fetch, Sleep 2000, Fetch])"
      using c2 by (simp del: One_nat_def)
    have "callAI net 0 = (fst (callAI net (0 + 1)), Fetch # Sleep (1000 * (0 + 1)) # snd (callAI net (0 + 1)))"
      using t0 by (rule callAI_retry) (simp_all add: RETRY_ATTEMPTS_def)
    then show ?thesis
      using c1 by (simp del: One_nat_def)
  qed
  have abort: "callAI net k = (Inl (Error (js ''TIMEOUT'')), [Fetch])"
    if "net k = Rejected e \<and> err_name e = js ''AbortError''" for k e
    using that by (subst callAI.simps) (simp add: tryBlock_def)
  have gateway: "callAI net k = (Inl (Error (js ''TIMEOUT'')), [Fetch])"
    if "net k = Response 504 parsed" for k parsed
    by (rule callAI_give_up) (simp_all add: that tryBlock_def js_def)
  have limited: "callAI net k = (Inl (Error (js ''RATE_LIMIT'')), [Fetch])"
    if "net k = Response 429 parsed" for k parsed
    by (rule callAI_give_up) (simp_all add: that tryBlock_def js_def)
  have network: "callAI net k = (Inl (Error (js ''NETWORK_ERROR'')), [Fetch])"
    if "net k = Rejected e \<and> err_name e \<noteq> js ''AbortError'' \<and> isTypeError e \<and>
        str_includes (err_message e) (js ''fetch'')" for k e
    using that by (subst callAI.simps) (simp add: tryBlock_def)
  from effects server abort gateway limited network show ?thesis
    by blast
qed

theorem callAI_retry_bound_witness:
  "callAI (\<lambda>k. Response 500 (Inr JNull)) 0 =
     (Inl (Error (js ''SERVER_ERROR'')), [Fetch, Sleep 1000, Fetch, Sleep 2000, Fetch])
   \<and> callAI (\<lambda>k. if k = 0 then Response 503 (Inr JNull) else Response 429 (Inr JNull)) 1 =
     (Inl (Error (js ''RATE_LIMIT'')), [Fetch])
   \<and> callAI (\<lambda>k. Rejected \<lparr>err_name = js ''AbortError'', err_message = js ''aborted'',
                             isTypeError = False\<rparr>) 0 =
     (Inl (Error (js ''TIMEOUT'')), [Fetch])
   \<and> callAI (\<lambda>k. Rejected \<lparr>err_name = js ''TypeError'', err_message = js ''Failed to fetch'',
                             isTypeError = True\<rparr>) 0 =
     (Inl (Error (js ''NETWORK_ERROR'')), [Fetch])"
proof -
  have "callAI (\<lambda>k. Response 500 (Inr JNull)) 0 =
     (Inl (Error (js ''SERVER_ERROR'')), [Fetch, Sleep 1000, Fetch, Sleep 2000, Fetch])"
    using callAI_retry_bound [of "\<lambda>k. Response 500 (Inr JNull)"] by simp
  moreover have "callAI (\<lambda>k. if k = 0 then Response 503 (Inr JNull) else Response 429 (Inr JNull)) 1 =
     (Inl (Error (js ''RATE_LIMIT'')), [Fetch])"
    using callAI_retry_bound
      [of "\<lambda>k. if k = 0 then Response 503 (Inr JNull) else Response 429 (Inr JNull)"]
    by simp
  moreover have "callAI (\<lambda>k. Rejected \<lparr>err_name = js ''AbortError'', err_message = js ''aborted'',
                             isTypeError = False\<rparr>) 0 =
     (Inl (Error (js ''TIMEOUT'')), [Fetch])"
    using callAI_retry_bound
      [of "\<lambda>k. Rejected \<lparr>err_name = js ''AbortError'', err_message = js ''aborted'',
                             isTypeError = False\<rparr>"]
    by simp
  moreover have "callAI (\<lambda>k. Rejected \<lparr>err_name = js ''TypeError'', err_message = js ''Failed to fetch'',
                             isTypeError = True\<rparr>) 0 =
     (Inl (Error (js ''NETWORK_ERROR'')), [Fetch])"
    using callAI_retry_bound
      [of "\<lambda>k. Rejected \<lparr>err_name = js ''TypeError'', err_message = js ''Failed to fetch'',
                             isTypeError = True\<rparr>"]
    by (simp add: js_def)
  ultimately show ?thesis
    by simp
qed

section \<open>The widget's rate limiter\<close>

lemma runChecks_first_tier:
  assumes "tierDenies now PER_MINUTE stamps"
  shows "runChecks now stamps checks =
     Some (ClientDenied (Messages PER_MINUTE Ja)
       (ceil_seconds (Min (set (tierEntries now PER_MINUTE stamps)) + 60000 - now)))"
  using assms
  by (simp add: checks_def tierDenies_def tierEntries_def getCurrentLanguage_def Let_def)

lemma checkRateLimit_client_denied:
  assumes "runChecks now (prunedTimes now storage) checks = Some denial"
  shows "checkRateLimit_client now writable storage = (denial, storage)"
  using assms by (simp add: checkRateLimit_client_def prunedTimes_def)

lemma checkRateLimit_client_allowed:
  assumes "runChecks now (prunedTimes now storage) checks = None"
  shows "checkRateLimit_client now writable storage =
     (ClientAllowed, if writable then Times (prunedTimes now storage @ [now]) else storage)"
  using assms by (simp add: checkRateLimit_client_def prunedTimes_def)

lemma runChecks_not_allowed: "runChecks now stamps cs \<noteq> Some ClientAllowed"
  by (induction cs) (simp_all add: Let_def)

text \<open>
  C5, as stated, fails: a denied call returns before anything is written. With a
  timestamp of more than 24 hours ago and eight of the last minute in the storage, the
  call is denied and the storage still holds the old timestamp.
\<close>

theorem denied_check_keeps_old_timestamp:
  "checkRateLimit_client 200000000 True
      (Times [0, 199990001, 199990002, 199990003, 199990004, 199990005, 199990006,
              199990007, 199990008])
     = (ClientDenied (Messages PER_MINUTE Ja) 51,
        Times [0, 199990001, 199990002, 199990003, 199990004, 199990005, 199990006,
               199990007, 199990008])
   \<and> 200000000 - 0 \<ge> window (RATE_LIMITS PER_DAY)"
  by (simp add: checkRateLimit_client_def loadTimes_def checks_def getCurrentLanguage_def
      ceil_seconds_div)

text \<open>
  C5, amended. A call of the check that allows and whose write to the storage succeeds
  leaves as persisted sequence the stored timestamps of the last 24 hours followed by
  \<open>now\<close>, so none of them is older than the largest window. A call that denies, or
  whose write fails, leaves the storage as it was.
\<close>

theorem allowed_check_prunes:
  "snd (checkRateLimit_client now writable storage) =
     (if fst (checkRateLimit_client now writable storage) = ClientAllowed \<and> writable
      then Times (filter (\<lambda>time. now - time < window (RATE_LIMITS PER_DAY)) (loadTimes storage)
                  @ [now])
      else storage)
   \<and> (fst (checkRateLimit_client now writable storage) = ClientAllowed \<and> writable \<longrightarrow>
        (\<forall>time \<in> set (loadTimes (snd (checkRateLimit_client now writable storage))).
           now - time < window (RATE_LIMITS PER_DAY)))"
proof (cases "runChecks now (prunedTimes now storage) checks")
  case None
  then show ?thesis
    by (simp add: checkRateLimit_client_allowed prunedTimes_def loadTimes_def)
next
  case (Some denial)
  moreover from this have "denial \<noteq> ClientAllowed"
    using runChecks_not_allowed by metis
  ultimately show ?thesis
    by (simp add: checkRateLimit_client_denied)
qed

theorem allowed_check_prunes_witness:
  "checkRateLimit_client 200000000 True (Times [0, 113600000, 113600001, 199990001])
     = (ClientAllowed, Times [113600001, 199990001, 200000000])
   \<and> 200000000 - 113600001 < window (RATE_LIMITS PER_DAY)
   \<and> 200000000 - 199990001 < window (RATE_LIMITS PER_DAY)
   \<and> 200000000 - 200000000 < window (RATE_LIMITS PER_DAY)"
proof -
  have r: "checkRateLimit_client 200000000 True (Times [0, 113600000, 113600001, 199990001])
     = (ClientAllowed, Times [113600001, 199990001, 200000000])"
    by (simp add: checkRateLimit_client_def loadTimes_def checks_def)
  show ?thesis
    using allowed_check_prunes [of 200000000 True "Times [0, 113600000, 113600001, 199990001]"]
    by (simp add: r loadTimes_def)
qed

text \<open>
  C7. When the 1-minute tier and the 10-minute tier would each deny, the check denies
  with the message of the 1-minute tier in the current language, and with
  \<open>retryAfter\<close> the ceiling of (oldest entry of that tier + its window - now) / 1000;
  the storage is not changed.
\<close>

theorem first_tier_decides:
  assumes "tierDenies now PER_MINUTE (prunedTimes now storage)"
    and "tierDenies now PER_10_MINUTES (prunedTimes now storage)"
  shows "checkRateLimit_client now writable storage =
     (ClientDenied (Messages PER_MINUTE getCurrentLanguage)
        \<lceil>(of_int (Min (set (tierEntries now PER_MINUTE (prunedTimes now storage)))
                    + window (RATE_LIMITS PER_MINUTE) - now) :: rat) / 1000\<rceil>,
      storage)"
  using runChecks_first_tier [OF assms(1)]
  by (simp add: checkRateLimit_client_denied ceil_seconds_def getCurrentLanguage_def)

theorem first_tier_decides_witness:
  "tierDenies 1000000 PER_MINUTE (prunedTimes 1000000
      (Times [400001, 400002, 400003, 400004, 400005, 400006, 400007, 400008, 400009, 400010,
              400011, 400012, 950001, 950002, 950003, 950004, 950005, 950006, 950007, 950008]))
   \<and> tierDenies 1000000 PER_10_MINUTES (prunedTimes 1000000
      (Times [400001, 400002, 400003, 400004, 400005, 400006, 400007, 400008, 400009, 400010,
              400011, 400012, 950001, 950002, 950003, 950004, 950005, 950006, 950007, 950008]))
   \<and> checkRateLimit_client 1000000 True
      (Times [400001, 400002, 400003, 400004, 400005, 400006, 400007, 400008, 400009, 400010,
              400011, 400012, 950001, 950002, 950003, 950004, 950005, 950006, 950007, 950008])
     = (ClientDenied (Messages PER_MINUTE Ja) 11,
        Times [400001, 400002, 400003, 400004, 400005, 400006, 400007, 400008, 400009, 400010,
               400011, 400012, 950001, 950002, 950003, 950004, 950005, 950006, 950007, 950008])"
proof -
  let ?storage = "Times [400001, 400002, 400003, 400004, 400005, 400006, 400007, 400008, 400009,
      400010, 400011, 400012, 950001, 950002, 950003, 950004, 950005, 950006, 950007, 950008]"
  have pruned: "prunedTimes 1000000 ?storage = loadTimes ?storage"
    by (simp add: prunedTimes_def loadTimes_def)
  have minute: "tierDenies 1000000 PER_MINUTE (prunedTimes 1000000 ?storage)"
    by (simp add: pruned loadTimes_def tierDenies_def tierEntries_def)
  have ten: "tierDenies 1000000 PER_10_MINUTES (prunedTimes 1000000 ?storage)"
    by (simp add: pruned loadTimes_def tierDenies_def tierEntries_def)
  have entries: "tierEntries 1000000 PER_MINUTE (prunedTimes 1000000 ?storage) =
      [950001, 950002, 950003, 950004, 950005, 950006, 950007, 950008]"
    by (simp add: pruned loadTimes_def tierEntries_def)
  have ceil: "\<lceil>(of_int (950001 + 60000 - 1000000) :: rat) / 1000\<rceil> = 11"
    using ceil_seconds_div [of "950001 + 60000 - 1000000"] by (simp add: ceil_seconds_def)
  have "checkRateLimit_client 1000000 True ?storage =
      (ClientDenied (Messages PER_MINUTE Ja) 11, ?storage)"
    using first_tier_decides [OF minute ten, of True] ceil
    by (simp add: entries getCurrentLanguage_def)
  with minute ten show ?thesis
    by simp
qed

section \<open>The conversation history\<close>

lemma addMessages_history:
  "messageHistory (addMessages writable ms w) = messageHistory w @ map newTurn ms"
  by (induction writable ms w rule: addMessages.induct)
    (simp_all add: addMessage_def storeConversation_def newTurn_def)

lemma addMessages_stored:
  assumes "ms \<noteq> []"
  shows "chatbot_history (addMessages True ms w) =
           Some (slice_last 50 (messageHistory w @ map newTurn ms))"
  using assms
proof (induction ms arbitrary: w)
  case Nil
  then show ?case by simp
next
  case (Cons m rest)
  obtain d s u where m: "m = (d, s, u)"
    by (cases m) auto
  show ?case
  proof (cases "rest = []")
    case True
    then show ?thesis
      by (simp add: m addMessage_def storeConversation_def newTurn_def)
  next
    case False
    then show ?thesis
      using Cons.IH [of "addMessage True d s u Normal w"]
      by (simp add: m addMessage_def storeConversation_def newTurn_def)
  qed
qed

text \<open>
  C6, as stated, fails for the stored copy: \<open>storeConversation\<close> catches the exception
  of a write that fails, and then nothing is stored. With one turn in the history and
  nothing stored, a failing write leaves nothing stored, not the turn.
\<close>

theorem failed_write_stores_nothing:
  "chatbot_history (storeConversation False
      \<lparr>messageHistory = [\<lparr>turn_text = js ''hi'', isUser = True, turn_timestamp = 0\<rparr>],
       chatbot_history = None\<rparr>) = None
   \<and> slice_last 50 [\<lparr>turn_text = js ''hi'', isUser = True, turn_timestamp = 0\<rparr>] =
       [\<lparr>turn_text = js ''hi'', isUser = True, turn_timestamp = 0\<rparr>]"
  by (simp add: storeConversation_def slice_last_def)

text \<open>
  C6, amended. The slice for the wire is the last five turns of the history (all of them
  when there are fewer), in their order, each with the role \<open>user\<close> when the user wrote
  it and \<open>assistant\<close> otherwise and with its text as content. What \<open>storeConversation\<close>
  stores when the write to the session storage succeeds is the last fifty turns; when
  the write fails it leaves what was stored. After sixty messages added to an empty
  history the slice for the wire is the last five of them, whether the writes succeed
  or not, and with writes that succeed the stored copy is the last fifty.
\<close>

theorem history_truncation:
  "getHistoryForAPI w =
     map (\<lambda>msg. \<lparr>role = (if isUser msg then js ''user'' else js ''assistant''),
                  content = turn_text msg\<rparr>)
       (drop (length (messageHistory w) - 5) (messageHistory w))
   \<and> suffix (drop (length (messageHistory w) - 5) (messageHistory w)) (messageHistory w)
   \<and> length (getHistoryForAPI w) = min 5 (length (messageHistory w))
   \<and> chatbot_history (storeConversation True w) =
       Some (drop (length (messageHistory w) - 50) (messageHistory w))
   \<and> suffix (drop (length (messageHistory w) - 50) (messageHistory w)) (messageHistory w)
   \<and> storeConversation False w = w
   \<and> (length ms = 60 \<longrightarrow>
        getHistoryForAPI (addMessages writable ms \<lparr>messageHistory = [], chatbot_history = None\<rparr>) =
          map (toWire \<circ> newTurn) (drop 55 ms)
        \<and> chatbot_history (addMessages True ms \<lparr>messageHistory = [], chatbot_history = None\<rparr>) =
          Some (map newTurn (drop 10 ms)))"
proof -
  have sixty: "getHistoryForAPI (addMessages writable ms \<lparr>messageHistory = [], chatbot_history = None\<rparr>) =
          map (toWire \<circ> newTurn) (drop 55 ms)
        \<and> chatbot_history (addMessages True ms \<lparr>messageHistory = [], chatbot_history = None\<rparr>) =
          Some (map newTurn (drop 10 ms))" if len: "length ms = 60"
  proof -
    from len have "ms \<noteq> []"
      by auto
    then show ?thesis
      using len
      by (simp add: addMessages_stored getHistoryForAPI_def addMessages_history slice_last_def
          MAX_HISTORY_LENGTH_client_def toWire_def drop_map comp_def)
  qed
  have "getHistoryForAPI w =
     map (\<lambda>msg. \<lparr>role = (if isUser msg then js ''user'' else js ''assistant''),
                  content = turn_text msg\<rparr>)
       (drop (length (messageHistory w) - 5) (messageHistory w))"
    by (simp add: getHistoryForAPI_def slice_last_def MAX_HISTORY_LENGTH_client_def)
  moreover have "length (getHistoryForAPI w) = min 5 (length (messageHistory w))"
    by (simp add: getHistoryForAPI_def slice_last_def MAX_HISTORY_LENGTH_client_def)
  moreover have "chatbot_history (storeConversation True w) =
       Some (drop (length (messageHistory w) - 50) (messageHistory w))"
    by (simp add: storeConversation_def slice_last_def)
  moreover have "storeConversation False w = w"
    by (simp add: storeConversation_def)
  ultimately show ?thesis
    using sixty by (simp add: suffix_drop)
qed

theorem history_truncation_witness:
  "getHistoryForAPI (addMessages True
      (replicate 55 (0, js ''old'', True) @
       [(1, js ''a'', True), (2, js ''b'', False), (3, js ''c'', True), (4, js ''d'', False),
        (5, js ''e'', True)])
      \<lparr>messageHistory = [], chatbot_history = None\<rparr>) =
     [\<lparr>role = js ''user'', content = js ''a''\<rparr>,
      \<lparr>role = js ''assistant'', content = js ''b''\<rparr>,
      \<lparr>role = js ''user'', content = js ''c''\<rparr>,
      \<lparr>role = js ''assistant'', content = js ''d''\<rparr>,
      \<lparr>role = js ''user'', content = js ''e''\<rparr>]
   \<and> chatbot_history (addMessages True
      (replicate 55 (0, js ''old'', True) @
       [(1, js ''a'', True), (2, js ''b'', False), (3, js ''c'', True), (4, js ''d'', False),
        (5, js ''e'', True)])
      \<lparr>messageHistory = [], chatbot_history = None\<rparr>) =
     Some (map newTurn
       (replicate 45 (0, js ''old'', True) @
        [(1, js ''a'', True), (2, js ''b'', False), (3, js ''c'', True), (4, js ''d'', False),
         (5, js ''e'', True)]))"
proof -
  let ?ms = "replicate 55 (0 :: int, js ''old'', True) @
       [(1, js ''a'', True), (2, js ''b'', False), (3, js ''c'', True), (4, js ''d'', False),
        (5, js ''e'', True)]"
  have len: "length ?ms = 60"
    by simp
  have last5: "drop 55 ?ms =
      [(1, js ''a'', True), (2, js ''b'', False), (3, js ''c'', True), (4, js ''d'', False),
       (5, js ''e'', True)]"
    by simp
  have last50: "drop 10 ?ms = replicate 45 (0 :: int, js ''old'', True) @
      [(1, js ''a'', True), (2, js ''b'', False), (3, js ''c'', True), (4, js ''d'', False),
       (5, js ''e'', True)]"
    by simp
  from history_truncation
    [where w = "\<lparr>messageHistory = [], chatbot_history = None\<rparr>" and ms = ?ms and writable = True]
    len
  have "getHistoryForAPI (addMessages True ?ms \<lparr>messageHistory = [], chatbot_history = None\<rparr>) =
      map (toWire \<circ> newTurn) (drop 55 ?ms)
    \<and> chatbot_history (addMessages True ?ms \<lparr>messageHistory = [], chatbot_history = None\<rparr>) =
      Some (map newTurn (drop 10 ?ms))"
    by blast
  then show ?thesis
    unfolding last5 last50 by (simp add: toWire_def newTurn_def)
qed

section \<open>Sanitizing the contact payload\<close>

lemma str_of_or_default: "str_of (Some (or_default v (JStr []))) = str_of v"
  by (cases v rule: truthy.cases) simp_all

lemma fieldInvalid_or_default:
  "\<not> fieldInvalid (Some (or_default v (JStr []))) \<Longrightarrow> isString v \<and> trim (str_of v) \<noteq> []"
  by (cases v rule: truthy.cases) (auto simp: fieldInvalid_def trim_def split: if_splits)

lemma sanitizeOptional_string:
  "sanitizeOptional n (Some (or_default v (JStr []))) = Inr s \<Longrightarrow> s = take n (trim (str_of v))"
  by (cases v rule: truthy.cases) (auto simp: sanitizeOptional_def trim_def split: if_splits)

text \<open>
  When \<open>validateAndSanitize\<close> returns a payload as valid, the name, the email and the
  message supplied are strings that are not blank, and in the record returned the name
  is the name trimmed and cut to 100 code units, the email the email trimmed,
  lowercased and cut to 200, the message the message trimmed and cut to 2000, and the
  source the source supplied when that is \<open>website-contact-form\<close> or \<open>pdf-download\<close>
  and \<open>website-contact-form\<close> otherwise.
\<close>

lemma sanitized_fields:
  assumes "validateAndSanitize lower isoNow data = Inr (ContactValid s)"
  shows "isString (or_else (get data (js ''name'')) (get data (js ''firstname'')))
       \<and> isString (get data (js ''email'')) \<and> isString (get data (js ''message''))
       \<and> c_name s =
           take 100 (trim (str_of (or_else (get data (js ''name'')) (get data (js ''firstname'')))))
       \<and> c_email s = take 200 (lower (trim (str_of (get data (js ''email'')))))
       \<and> c_message s = take 2000 (trim (str_of (get data (js ''message''))))
       \<and> c_source s =
           (if get data (js ''source'') = Some (JStr (js ''website-contact-form'')) \<or>
               get data (js ''source'') = Some (JStr (js ''pdf-download''))
            then str_of (get data (js ''source''))
            else js ''website-contact-form'')
       \<and> length (c_name s) \<le> 100 \<and> length (c_email s) \<le> 200 \<and> length (c_message s) \<le> 2000"
proof -
  let ?name = "or_else (get data (js ''name'')) (get data (js ''firstname''))"
  let ?email = "get data (js ''email'')"
  let ?msg = "get data (js ''message'')"
  from assms have unfolded:
    "\<not> fieldInvalid (Some (or_default ?name (JStr []))) \<and>
     \<not> fieldInvalid (Some (or_default ?email (JStr []))) \<and>
     \<not> fieldInvalid (Some (or_default ?msg (JStr []))) \<and>
     c_name s = take 100 (trim (str_of (Some (or_default ?name (JStr []))))) \<and>
     c_email s = take 200 (lower (trim (str_of (Some (or_default ?email (JStr [])))))) \<and>
     c_message s = take 2000 (trim (str_of (Some (or_default ?msg (JStr []))))) \<and>
     c_source s =
       (if truthy (get data (js ''source'')) \<and>
           get data (js ''source'') \<in> {Some (JStr (js ''website-contact-form'')),
                                      Some (JStr (js ''pdf-download''))}
        then str_of (get data (js ''source''))
        else js ''website-contact-form'')"
    unfolding validateAndSanitize_def Let_def
    by (auto simp del: or_default.simps split: if_splits sum.splits)
  then have valid:
    "\<not> fieldInvalid (Some (or_default ?name (JStr [])))"
    "\<not> fieldInvalid (Some (or_default ?email (JStr [])))"
    "\<not> fieldInvalid (Some (or_default ?msg (JStr [])))"
    by simp_all
  from unfolded have fields:
    "c_name s = take 100 (trim (str_of (Some (or_default ?name (JStr [])))))"
    "c_email s = take 200 (lower (trim (str_of (Some (or_default ?email (JStr []))))))"
    "c_message s = take 2000 (trim (str_of (Some (or_default ?msg (JStr [])))))"
    "c_source s =
       (if truthy (get data (js ''source'')) \<and>
           get data (js ''source'') \<in> {Some (JStr (js ''website-contact-form'')),
                                      Some (JStr (js ''pdf-download''))}
        then str_of (get data (js ''source''))
        else js ''website-contact-form'')"
    by simp_all
  have source: "get data (js ''source'') \<in> {Some (JStr (js ''website-contact-form'')),
                                      Some (JStr (js ''pdf-download''))}
      \<Longrightarrow> truthy (get data (js ''source''))"
    by (auto simp: js_def)
  show ?thesis
    using valid [THEN fieldInvalid_or_default] fields source
    by (auto simp: str_of_or_default)
qed

text \<open>
  The example of the specification, with the lowercasing of ASCII: the name \<open>" Bob "\<close>
  becomes \<open>"Bob"\<close>, the email \<open>"BOB@Example.com"\<close> becomes \<open>"bob@example.com"\<close>, and a
  source that is not recognised becomes \<open>"website-contact-form"\<close>.
\<close>

lemma sanitized_fields_example:
  "validateAndSanitize toLowerCase_ascii (js ''2025-01-01T00:00:00.000Z'')
     (JObj [(js ''name'', JStr (js '' Bob '')),
            (js ''email'', JStr (js ''BOB@Example.com'')),
            (js ''message'', JStr (js ''hi therehi there'')),
            (js ''source'', JStr (js ''somewhere-else''))])
   = Inr (ContactValid
       \<lparr>c_name = js ''Bob'', c_email = js ''bob@example.com'', c_company = [], c_phone = [],
        c_service = [], c_message = js ''hi therehi there'', c_consent = False,
        c_language = JStr (js ''ja''), c_timestamp = js ''2025-01-01T00:00:00.000Z'',
        c_source = js ''website-contact-form''\<rparr>)
   \<and> take 100 (trim (js '' Bob '')) = js ''Bob''
   \<and> take 200 (toLowerCase_ascii (trim (js ''BOB@Example.com''))) = js ''bob@example.com''"
proof -
  let ?data = "JObj [(js ''name'', JStr (js '' Bob '')),
            (js ''email'', JStr (js ''BOB@Example.com'')),
            (js ''message'', JStr (js ''hi therehi there'')),
            (js ''source'', JStr (js ''somewhere-else''))]"
  let ?s = "\<lparr>c_name = js ''Bob'', c_email = js ''bob@example.com'', c_company = [], c_phone = [],
        c_service = [], c_message = js ''hi therehi there'', c_consent = False,
        c_language = JStr (js ''ja''), c_timestamp = js ''2025-01-01T00:00:00.000Z'',
        c_source = js ''website-contact-form''\<rparr>"
  have r: "validateAndSanitize toLowerCase_ascii (js ''2025-01-01T00:00:00.000Z'') ?data
      = Inr (ContactValid ?s)"
    by (simp add: validateAndSanitize_def fieldInvalid_def or_else_def testThrows_def
        lengthThrows_def sanitizeOptional_def
        emailRegex_test_def emailChar_def toLowerCase_ascii_def trim_def isWhiteSpace_def js_def)
  have name: "or_else (get ?data (js ''name'')) (get ?data (js ''firstname'')) =
      Some (JStr (js '' Bob ''))"
    by (simp add: or_else_def js_def)
  have email: "get ?data (js ''email'') = Some (JStr (js ''BOB@Example.com''))"
    by (simp add: js_def)
  from sanitized_fields [OF r]
  have "c_name ?s = take 100 (trim (str_of (Some (JStr (js '' Bob '')))))
      \<and> c_email ?s = take 200 (toLowerCase_ascii (trim (str_of (Some (JStr (js ''BOB@Example.com''))))))"
    unfolding name email by blast
  then show ?thesis
    by (simp add: r)
qed


text \<open>
  The test of the email is the match of the regular expression: the string is a run of
  characters other than white space and \<open>@\<close>, an \<open>@\<close>, such a run, a dot and such a
  run, each run non-empty.
\<close>

lemma emailChar_dot: "emailChar 0x2E" and emailChar_at: "\<not> emailChar 0x40"
  by (simp_all add: emailChar_def isWhiteSpace_def)

lemma emailRegex_test_iff:
  "emailRegex_test s \<longleftrightarrow>
     (\<exists>a b c. s = a @ 0x40 # b @ 0x2E # c \<and> a \<noteq> [] \<and> b \<noteq> [] \<and> c \<noteq> [] \<and>
        list_all emailChar a \<and> list_all emailChar b \<and> list_all emailChar c)"
proof
  assume test: "emailRegex_test s"
  define a where "a = takeWhile emailChar s"
  from test obtain r where r: "dropWhile emailChar s = 0x40 # r"
    and all: "list_all emailChar r" and dot: "0x2E \<in> set (butlast (tl r))"
    by (auto simp: emailRegex_test_def split: list.splits)
  from test have a: "a \<noteq> []"
    by (simp add: emailRegex_test_def a_def)
  have s: "s = a @ 0x40 # r"
    using takeWhile_dropWhile_id [of emailChar s] r by (simp add: a_def)
  from dot obtain xs ys where mid: "butlast (tl r) = xs @ 0x2E # ys"
    by (auto dest: split_list)
  then have "tl r \<noteq> []"
    by auto
  then have tl: "tl r = xs @ 0x2E # ys @ [last (tl r)]"
    using mid append_butlast_last_id [of "tl r"] by simp
  then have "r \<noteq> []"
    by auto
  then have rr: "r = (hd r # xs) @ 0x2E # (ys @ [last (tl r)])"
    using tl by (cases r) simp_all
  have "list_all emailChar (hd r # xs)" "list_all emailChar (ys @ [last (tl r)])"
    using all by (subst (asm) rr, simp)+
  moreover have "list_all emailChar a"
    by (simp add: a_def list_all_iff) (meson set_takeWhileD)
  ultimately show "\<exists>a b c. s = a @ 0x40 # b @ 0x2E # c \<and> a \<noteq> [] \<and> b \<noteq> [] \<and> c \<noteq> [] \<and>
        list_all emailChar a \<and> list_all emailChar b \<and> list_all emailChar c"
    using s rr a by (intro exI [of _ a] exI [of _ "hd r # xs"] exI [of _ "ys @ [last (tl r)]"]) simp
next
  assume "\<exists>a b c. s = a @ 0x40 # b @ 0x2E # c \<and> a \<noteq> [] \<and> b \<noteq> [] \<and> c \<noteq> [] \<and>
        list_all emailChar a \<and> list_all emailChar b \<and> list_all emailChar c"
  then obtain a b c where s: "s = a @ 0x40 # b @ 0x2E # c"
    and ne: "a \<noteq> []" "b \<noteq> []" "c \<noteq> []"
    and all: "list_all emailChar a" "list_all emailChar b" "list_all emailChar c"
    by blast
  have tw: "takeWhile emailChar s = a"
    using all(1) emailChar_at by (simp add: s list_all_iff takeWhile_append2)
  have dw: "dropWhile emailChar s = 0x40 # b @ 0x2E # c"
    using all(1) emailChar_at by (simp add: s list_all_iff dropWhile_append2)
  obtain b0 b' where b: "b = b0 # b'"
    using ne(2) by (cases b) auto
  have "butlast (tl (b @ 0x2E # c)) = b' @ 0x2E # butlast c"
    using ne(3) by (simp add: b butlast_append)
  then have dot: "0x2E \<in> set (butlast (tl (b @ 0x2E # c)))"
    by simp
  show "emailRegex_test s"
    using ne(1) all(2,3) dot emailChar_dot by (simp add: emailRegex_test_def tw dw)
qed

text \<open>
  When the three required fields pass and each optional field is absent, falsy or a
  string, \<open>validateAndSanitize\<close> returns the payload as valid.
\<close>

lemma sanitizeOptional_total:
  "\<not> truthy v \<or> isString v \<Longrightarrow> \<exists>s. sanitizeOptional n (Some (or_default v (JStr []))) = Inr s"
  by (cases v rule: truthy.cases) (auto simp: sanitizeOptional_def)

lemma required_string:
  assumes "\<not> fieldInvalid v"
  shows "\<not> fieldInvalid (Some (or_default v (JStr [])))"
    and "\<not> testThrows (or_default v (JStr []))"
    and "\<not> lengthThrows (or_default v (JStr []))"
  using assms
  by (cases v rule: truthy.cases; simp add: fieldInvalid_def testThrows_def lengthThrows_def)+

lemma validateAndSanitize_returns:
  assumes "data \<noteq> JNull"
    and "\<not> fieldInvalid (or_else (get data (js ''name'')) (get data (js ''firstname'')))"
    and "\<not> fieldInvalid (get data (js ''email''))"
    and "emailRegex_test (str_of (get data (js ''email'')))"
    and "\<not> fieldInvalid (get data (js ''message''))"
    and "length (str_of (get data (js ''message''))) \<le> 2000"
    and "\<not> truthy (get data (js ''company'')) \<or> isString (get data (js ''company''))"
    and "\<not> truthy (get data (js ''phone'')) \<or> isString (get data (js ''phone''))"
    and "\<not> truthy (or_else (get data (js ''service'')) (get data (js ''projectType''))) \<or>
         isString (or_else (get data (js ''service'')) (get data (js ''projectType'')))"
  shows "\<exists>s. validateAndSanitize lower isoNow data = Inr (ContactValid s)"
proof -
  obtain company phone service where opt:
    "sanitizeOptional 200 (Some (or_default (get data (js ''company'')) (JStr []))) = Inr company"
    "sanitizeOptional 50 (Some (or_default (get data (js ''phone'')) (JStr []))) = Inr phone"
    "sanitizeOptional 100 (Some (or_default
        (or_else (get data (js ''service'')) (get data (js ''projectType''))) (JStr []))) = Inr service"
    using assms(7-9) [THEN sanitizeOptional_total] by blast
  show ?thesis
    unfolding validateAndSanitize_def Let_def
    using assms(1,4,6) assms(2,3,5) [THEN required_string(1)]
      assms(3) [THEN required_string(2)] assms(5) [THEN required_string(3)] opt
    by (simp add: str_of_or_default del: or_default.simps)
qed

lemma non_string_company_throws:
  "validateAndSanitize lower isoNow
     (JObj [(js ''name'', JStr (js ''Bob'')), (js ''email'', JStr (js ''bob@example.com'')),
            (js ''message'', JStr (js ''hi'')), (js ''company'', JNum 5)])
   = Inl TypeError"
  by (simp add: validateAndSanitize_def fieldInvalid_def or_else_def sanitizeOptional_def
      testThrows_def lengthThrows_def emailRegex_test_def emailChar_def trim_def
      isWhiteSpace_def js_def)

text \<open>
  C8: the code does not do what the claim says for every payload that passes
  validation. The payload with the name \<open>Bob\<close>, the email \<open>bob@example.com\<close> and the
  message \<open>hi\<close> is returned as valid; the same payload with the number 5 as company
  passes the same checks, none of which reads the company, and then
  \<open>normalizedData.company.trim()\<close> throws a \<open>TypeError\<close>: no record is returned.
\<close>

theorem optional_field_type_error:
  "validateAndSanitize lower isoNow
     (JObj [(js ''name'', JStr (js ''Bob'')), (js ''email'', JStr (js ''bob@example.com'')),
            (js ''message'', JStr (js ''hi''))])
   = Inr (ContactValid
       \<lparr>c_name = js ''Bob'', c_email = take 200 (lower (js ''bob@example.com'')),
        c_company = [], c_phone = [], c_service = [], c_message = js ''hi'',
        c_consent = False, c_language = JStr (js ''ja''), c_timestamp = isoNow,
        c_source = js ''website-contact-form''\<rparr>)
   \<and> validateAndSanitize lower isoNow
     (JObj [(js ''name'', JStr (js ''Bob'')), (js ''email'', JStr (js ''bob@example.com'')),
            (js ''message'', JStr (js ''hi'')), (js ''company'', JNum 5)])
   = Inl TypeError"
  by (simp add: validateAndSanitize_def fieldInvalid_def or_else_def sanitizeOptional_def
      testThrows_def lengthThrows_def emailRegex_test_def emailChar_def trim_def
      isWhiteSpace_def js_def)

text \<open>The contact handler answers that payload with 500.\<close>

lemma handler_contact_type_error:
  assumes "httpMethod event = js ''POST''"
    and "fst (checkRateLimit_contact now store (clientIP event)) = Allowed"
    and "parseBody env event =
      Some (JObj [(js ''name'', JStr (js ''Bob'')), (js ''email'', JStr (js ''bob@example.com'')),
                  (js ''message'', JStr (js ''hi'')), (js ''company'', JNum 5)])"
  shows "fst (handler_contact cfg env now store event) =
           \<lparr>statusCode = 500, resp_body = InternalServerError\<rparr>"
  using assms non_string_company_throws [of "toLowerCase env" "toISOString env"]
  by (simp add: handler_contact_post)

text \<open>
  So does it answer an email that cannot be turned into a string, whatever else the
  payload holds: the test of the email throws after the loop over the required fields.
\<close>

lemma email_coercion_throws:
  "validateAndSanitize lower isoNow
     (JObj [(js ''email'', JObj [(js ''toString'', JNum 1)])]) = Inl TypeError"
  by (simp add: validateAndSanitize_def or_else_def testThrows_def js_def)

end
